theory Spec2Isabelle
  imports Main "HOL-Library.Sublist"
begin

section \<open>Python values\<close>

subsection \<open>Strings\<close>

text \<open>
  A Python \<^verbatim>\<open>str\<close> is a sequence of Unicode code points: \<^verbatim>\<open>len\<close> counts code points and
  the regular expressions of \<^verbatim>\<open>app.py\<close> work on code points. A string is therefore a list of
  code points, each a natural number. Hangul and emoji literals of the source are written as
  their code points; ASCII literals are written through \<open>ascii\<close>.
\<close>

type_synonym uchar = nat
type_synonym ustr = "uchar list"

definition ascii :: "string \<Rightarrow> ustr" where
  "ascii s = map of_char s"

text \<open>\<^verbatim>\<open>needle in text\<close> on two strings: \<open>needle\<close> occurs as a contiguous run.\<close>

definition contains :: "ustr \<Rightarrow> ustr \<Rightarrow> bool" where
  "contains text needle = sublist needle text"

text \<open>\<^verbatim>\<open>sep.join(parts)\<close>.\<close>

fun join :: "ustr \<Rightarrow> ustr list \<Rightarrow> ustr" where
  "join sep [] = []"
| "join sep [x] = x"
| "join sep (x # y # ys) = x @ sep @ join sep (y # ys)"

subsection \<open>Character classes of the runtime\<close>

text \<open>
  \<^verbatim>\<open>str.isspace\<close>, which is also what \<^verbatim>\<open>str.strip()\<close> removes and what \<^verbatim>\<open>\s\<close> matches in a
  \<^verbatim>\<open>str\<close> pattern (CPython: \<^verbatim>\<open>_PyUnicode_IsWhitespace\<close>).
\<close>

definition whitespace_chars :: "uchar list" where
  "whitespace_chars =
     [0x9, 0xA, 0xB, 0xC, 0xD, 0x1C, 0x1D, 0x1E, 0x1F, 0x20, 0x85, 0xA0, 0x1680,
      0x2000, 0x2001, 0x2002, 0x2003, 0x2004, 0x2005, 0x2006, 0x2007, 0x2008, 0x2009, 0x200A,
      0x2028, 0x2029, 0x202F, 0x205F, 0x3000]"

definition py_isspace :: "uchar \<Rightarrow> bool" where
  "py_isspace c = (c \<in> set whitespace_chars)"

definition py_strip :: "ustr \<Rightarrow> ustr" where
  "py_strip s = rev (dropWhile py_isspace (rev (dropWhile py_isspace s)))"

text \<open>
  The decimal digits (Unicode category Nd): what \<^verbatim>\<open>\d\<close> matches in a \<^verbatim>\<open>str\<close> pattern and what
  \<^verbatim>\<open>int\<close> reads. The code points come in runs of ten, of values 0 to 9; the list holds the
  first code point of each run (Unicode 14.0, the table of CPython 3.11).
\<close>

definition decimal_runs :: "uchar list" where
  "decimal_runs =
     [0x30, 0x660, 0x6F0, 0x7C0, 0x966, 0x9E6, 0xA66, 0xAE6, 0xB66, 0xBE6, 0xC66, 0xCE6, 0xD66,
      0xDE6, 0xE50, 0xED0, 0xF20, 0x1040, 0x1090, 0x17E0, 0x1810, 0x1946, 0x19D0, 0x1A80, 0x1A90,
      0x1B50, 0x1BB0, 0x1C40, 0x1C50, 0xA620, 0xA8D0, 0xA900, 0xA9D0, 0xA9F0, 0xAA50, 0xABF0,
      0xFF10, 0x104A0, 0x10D30, 0x11066, 0x110F0, 0x11136, 0x111D0, 0x112F0, 0x11450, 0x114D0,
      0x11650, 0x116C0, 0x11730, 0x118E0, 0x11950, 0x11C50, 0x11D50, 0x11DA0, 0x16A60, 0x16AC0,
      0x16B50, 0x1D7CE, 0x1D7D8, 0x1D7E2, 0x1D7EC, 0x1D7F6, 0x1E140, 0x1E2F0, 0x1E950, 0x1FBF0]"

definition py_decimal :: "uchar \<Rightarrow> nat option" where
  "py_decimal c =
     (case filter (\<lambda>s. s \<le> c \<and> c < s + 10) decimal_runs of
        [] \<Rightarrow> None
      | s # _ \<Rightarrow> Some (c - s))"

definition py_isdecimal :: "uchar \<Rightarrow> bool" where
  "py_isdecimal c = (py_decimal c \<noteq> None)"

subsection \<open>Exceptions and integers\<close>

datatype pyerr = TypeError | ValueError | KeyError | IndexError

text \<open>Sequencing of two steps of which the first may raise.\<close>

definition and_then :: "pyerr + 'a \<Rightarrow> ('a \<Rightarrow> pyerr + 'b) \<Rightarrow> pyerr + 'b" where
  "and_then r f = (case r of Inl e \<Rightarrow> Inl e | Inr v \<Rightarrow> f v)"

text \<open>
  \<^verbatim>\<open>int(x)\<close>. \<^verbatim>\<open>int(None)\<close> raises TypeError. On a non-empty string of decimal digits the
  result is its base-10 value. Every other string is mapped to ValueError here; the source
  passes only regex groups of digits and the result of \<^verbatim>\<open>str\<close> on an integer.
\<close>

fun decimal_value :: "ustr \<Rightarrow> int \<Rightarrow> pyerr + int" where
  "decimal_value [] acc = Inr acc"
| "decimal_value (c # cs) acc =
     (case py_decimal c of
        None \<Rightarrow> Inl ValueError
      | Some v \<Rightarrow> decimal_value cs (10 * acc + int v))"

definition py_int :: "ustr option \<Rightarrow> pyerr + int" where
  "py_int x =
     (case x of
        None \<Rightarrow> Inl TypeError
      | Some s \<Rightarrow> if s = [] then Inl ValueError else decimal_value s 0)"

text \<open>\<^verbatim>\<open>str(n)\<close> on an integer.\<close>

fun str_nat :: "nat \<Rightarrow> ustr" where
  "str_nat n = (if n < 10 then [0x30 + n] else str_nat (n div 10) @ [0x30 + n mod 10])"

declare str_nat.simps [simp del]

definition py_str_int :: "int \<Rightarrow> ustr" where
  "py_str_int n = (if n < 0 then 0x2D # str_nat (nat (- n)) else str_nat (nat n))"

text \<open>\<^verbatim>\<open>f"{n:02d}"\<close>: the decimal text, padded with zeros after the sign to a width of two.\<close>

definition format_02d :: "int \<Rightarrow> ustr" where
  "format_02d n = (if 0 \<le> n \<and> n < 10 then 0x30 # py_str_int n else py_str_int n)"

text \<open>\<^verbatim>\<open>f"{x}"\<close> on a value that is a string or None.\<close>

definition format_str :: "ustr option \<Rightarrow> ustr" where
  "format_str x = (case x of None \<Rightarrow> ascii ''None'' | Some s \<Rightarrow> s)"

text \<open>Truth value of a string or None: None and the empty string are false.\<close>

definition truthy_str :: "ustr option \<Rightarrow> bool" where
  "truthy_str x = (case x of None \<Rightarrow> False | Some s \<Rightarrow> s \<noteq> [])"

subsection \<open>Dictionaries\<close>

text \<open>
  A \<^verbatim>\<open>dict\<close> from strings to strings, in insertion order (the order \<^verbatim>\<open>items()\<close> iterates in):
  assigning to a key that is present replaces the value in place, assigning to a new key
  appends it.
\<close>

type_synonym pydict = "(ustr \<times> ustr) list"

fun dict_set :: "pydict \<Rightarrow> ustr \<Rightarrow> ustr \<Rightarrow> pydict" where
  "dict_set [] k v = [(k, v)]"
| "dict_set ((k', v') # d) k v = (if k' = k then (k, v) # d else (k', v') # dict_set d k v)"

definition dict_get :: "pydict \<Rightarrow> ustr \<Rightarrow> ustr option" where
  "dict_get d k = map_of d k"

definition dict_has :: "pydict \<Rightarrow> ustr \<Rightarrow> bool" where
  "dict_has d k = (map_of d k \<noteq> None)"

definition dict_get_default :: "pydict \<Rightarrow> ustr \<Rightarrow> ustr \<Rightarrow> ustr" where
  "dict_get_default d k dflt = (case map_of d k of None \<Rightarrow> dflt | Some v \<Rightarrow> v)"

section \<open>Regular expressions\<close>

text \<open>
  The fragment of \<^verbatim>\<open>re\<close> that the three patterns of \<^verbatim>\<open>app.py\<close> use: literals, sequence,
  alternation, the greedy optional \<^verbatim>\<open>?\<close>, greedy counted repetition of a character class
  (\<^verbatim>\<open>*\<close>, \<^verbatim>\<open>+\<close>, \<^verbatim>\<open>{n}\<close>, \<^verbatim>\<open>{m,n}\<close>) and capture groups. No flags are passed, so matching is
  case-sensitive.
\<close>

datatype citem = Ch uchar | Rng uchar uchar | Digit | Space

fun citem_has :: "citem \<Rightarrow> uchar \<Rightarrow> bool" where
  "citem_has (Ch a) c = (c = a)"
| "citem_has (Rng a b) c = (a \<le> c \<and> c \<le> b)"
| "citem_has Digit c = py_isdecimal c"
| "citem_has Space c = py_isspace c"

definition in_class :: "citem list \<Rightarrow> uchar \<Rightarrow> bool" where
  "in_class cs c = list_ex (\<lambda>i. citem_has i c) cs"

datatype rx =
    Lit ustr
  | Cat rx rx
  | Alt rx rx
  | Opt rx
  | Rep nat "nat option" "citem list"
  | Grp nat rx

text \<open>
  A backtracking matcher tries the alternatives in a fixed order and returns the first
  complete match. \<open>ms r (g, s)\<close> lists, in that order, every way \<open>r\<close> matches a prefix of
  \<open>s\<close>: the captured groups so far and the rest of the text. The head of the list is the
  match the backtracking engine reports. A greedy repetition tries the longest run first.
\<close>

type_synonym groups = "nat \<Rightarrow> ustr option"
type_synonym mstate = "groups \<times> ustr"

fun ms :: "rx \<Rightarrow> mstate \<Rightarrow> mstate list" where
  "ms (Lit l) (g, s) = (if prefix l s then [(g, drop (length l) s)] else [])"
| "ms (Cat a b) st = concat (map (ms b) (ms a st))"
| "ms (Alt a b) st = ms a st @ ms b st"
| "ms (Opt a) st = ms a st @ [st]"
| "ms (Rep lo hi cs) (g, s) =
     (let n = length (takeWhile (in_class cs) s);
          m = (case hi of None \<Rightarrow> n | Some h \<Rightarrow> min h n)
      in map (\<lambda>k. (g, drop k s)) (rev [lo..<Suc m]))"
| "ms (Grp i a) (g, s) =
     map (\<lambda>(g', r). (g'(i \<mapsto> take (length s - length r) s), r)) (ms a (g, s))"

text \<open>
  \<^verbatim>\<open>re.search\<close>: the match at the leftmost start position that has one; the result is the
  groups of the match (\<^verbatim>\<open>match.groups()\<close>, a group that took no part being None).
\<close>

fun search :: "rx \<Rightarrow> ustr \<Rightarrow> groups option" where
  "search r [] = (case ms r (Map.empty, []) of [] \<Rightarrow> None | st # _ \<Rightarrow> Some (fst st))"
| "search r (c # s) =
     (case ms r (Map.empty, c # s) of [] \<Rightarrow> search r s | st # _ \<Rightarrow> Some (fst st))"

section \<open>The program\<close>

subsection \<open>The environment of one turn\<close>

text \<open>
  What the world outside the process answers during one turn: the HTTP services, the
  language model, the clock, the prompt file and the Unicode tables of the runtime that
  are not written out above.
\<close>

text \<open>
  A parsed JSON value (\<^verbatim>\<open>res.json()\<close>). A number is kept as the two things the code can
  observe of it: whether it is non-zero, and its \<^verbatim>\<open>str\<close>. An object is kept as its
  key-value pairs, looked up with \<open>map_of\<close>.
\<close>

datatype json =
    JNull
  | JBool bool
  | JNum bool ustr
  | JStr ustr
  | JArr "json list"
  | JObj "(ustr \<times> json) list"

text \<open>
  The outcome of \<^verbatim>\<open>requests.get(...)\<close> followed by \<^verbatim>\<open>res.json()\<close>: the request raises, the
  body is not JSON (\<^verbatim>\<open>res.json()\<close> raises), or a value is returned.
\<close>

datatype lookup = RequestRaises | BodyNotJson | Body json

datatype llm_msg = SystemMessage ustr | HumanMessage ustr

record env =
  str_lower :: "ustr \<Rightarrow> ustr"
    \<comment> \<open>\<^verbatim>\<open>str.lower\<close>\<close>
  geocode :: "ustr \<Rightarrow> lookup"
    \<comment> \<open>the place-search service, asked for one place name\<close>
  container_str :: "json \<Rightarrow> ustr"
    \<comment> \<open>\<^verbatim>\<open>str\<close> of a list or dict\<close>
  now_weekday :: int
    \<comment> \<open>\<^verbatim>\<open>datetime.now().weekday()\<close>, Monday being 0\<close>
  now_plus_days :: "int \<Rightarrow> ustr"
    \<comment> \<open>\<^verbatim>\<open>(datetime.now() + timedelta(days=n)).strftime("%Y-%m-%dT%H:%M:%S+09:00")\<close>\<close>
  now_kst :: ustr
    \<comment> \<open>\<^verbatim>\<open>datetime.now().strftime\<close> with the Korean format of the reply paths\<close>
  prompt_file :: "ustr \<Rightarrow> ustr option"
    \<comment> \<open>the prompt file read and formatted with \<^verbatim>\<open>now_kst\<close>; None when that raises\<close>
  astrology_api :: "pydict \<Rightarrow> ustr + ustr"
    \<comment> \<open>the POST to the astrology service: Inr the body, Inl the text of a RequestException\<close>
  llm_invoke :: "llm_msg list \<Rightarrow> ustr + ustr"
    \<comment> \<open>\<^verbatim>\<open>llm.invoke\<close>: Inr the content of the response, Inl the text of the exception raised\<close>

subsection \<open>Constants\<close>

definition rasi_analysis_prompt :: ustr where
  "rasi_analysis_prompt = [0xA, 0xB77C, 0xC2DC, 0xCC28, 0xD2B8, 0x20, 0xBD84, 0xC11D, 0x20, 0xC2DC, 0x20, 0xB2E4,
     0xC74C, 0x20, 0xD56D, 0xBAA9, 0xB4E4, 0xC744, 0x20, 0xD3EC, 0xD568, 0xD574, 0x20, 0xC815,
     0xB9AC, 0xD574, 0xC918, 0x3A, 0xA, 0xA, 0x31, 0x2E, 0x20, 0x2A, 0x2A, 0xAC01, 0x20, 0xD589,
     0xC131, 0xC758, 0x20, 0xD558, 0xC6B0, 0xC2A4, 0x20, 0xC704, 0xCE58, 0x2C, 0x20, 0xBCC4,
     0xC790, 0xB9AC, 0x28, 0x52, 0x61, 0x73, 0x69, 0x29, 0x2C, 0x20, 0xC138, 0xAE30, 0x28, 0x53,
     0x74, 0x72, 0x65, 0x6E, 0x67, 0x74, 0x68, 0x29, 0x2A, 0x2A, 0x20, 0x20, 0xA, 0x32, 0x2E,
     0x20, 0x2A, 0x2A, 0xAC01, 0x20, 0xD589, 0xC131, 0xC758, 0x20, 0xB099, 0xC0E4, 0xD2B8,
     0xB77C, 0x28, 0x4E, 0x61, 0x6B, 0x73, 0x68, 0x61, 0x74, 0x72, 0x61, 0x29, 0xC640, 0x20,
     0xADF8, 0x20, 0xC9C0, 0xBC30, 0x20, 0xD589, 0xC131, 0x20, 0xC0C1, 0xD0DC, 0x2A, 0x2A, 0x20,
     0x20, 0xA, 0x33, 0x2E, 0x20, 0x2A, 0x2A, 0xAC01, 0x20, 0xD558, 0xC6B0, 0xC2A4, 0xBCC4, 0x20,
     0xC758, 0xBBF8, 0x20, 0xBC0F, 0x20, 0xD574, 0xB2F9, 0x20, 0xD558, 0xC6B0, 0xC2A4, 0xC5D0,
     0x20, 0xC704, 0xCE58, 0xD55C, 0x20, 0xD589, 0xC131, 0xC758, 0x20, 0xC131, 0xACA9, 0x20,
     0xBD84, 0xC11D, 0x2A, 0x2A, 0x20, 0x20, 0xA, 0x34, 0x2E, 0x20, 0x2A, 0x2A, 0xD558, 0xC6B0,
     0xC2A4, 0x20, 0xC138, 0xAE30, 0x28, 0xAC15, 0x2F, 0xC57D, 0x29, 0x2C, 0x20, 0xBE48, 0x20,
     0xD558, 0xC6B0, 0xC2A4, 0xC5D0, 0x20, 0xB300, 0xD55C, 0x20, 0xC601, 0xD5A5, 0x20, 0xD574,
     0xC11D, 0x2A, 0x2A, 0x20, 0x20, 0xA, 0x35, 0x2E, 0x20, 0x2A, 0x2A, 0xCF00, 0xB9C8, 0xB4DC,
     0xB8E8, 0xB9C8, 0x20, 0xC694, 0xAC00, 0x2C, 0x20, 0xB2C8, 0xCC28, 0x2F, 0xC6B0, 0xCC28,
     0x20, 0xC0C1, 0xD0DC, 0x2C, 0x20, 0xC810, 0xD504, 0xB77C, 0x20, 0xC694, 0xAC00, 0x20,
     0xB4F1, 0x20, 0xC8FC, 0xC694, 0x20, 0xC694, 0xAC00, 0x20, 0xC874, 0xC7AC, 0x20, 0xC5EC,
     0xBD80, 0x2A, 0x2A, 0x20, 0x20, 0xA, 0x36, 0x2E, 0x20, 0x2A, 0x2A, 0xB77C, 0xADF8, 0xB098,
     0x28, 0x41, 0x73, 0x63, 0x65, 0x6E, 0x64, 0x61, 0x6E, 0x74, 0x29, 0xC758, 0x20, 0xC704,
     0xCE58, 0xC640, 0x20, 0xC804, 0xCCB4, 0x20, 0xCC28, 0xD2B8, 0xC5D0, 0xC11C, 0xC758, 0x20,
     0xC5ED, 0xD560, 0x2A, 0x2A, 0x20, 0x20, 0xA, 0x37, 0x2E, 0x20, 0x2A, 0x2A, 0xC885, 0xD569,
     0x20, 0xD574, 0xC11D, 0x3A, 0x20, 0xC8FC, 0xC694, 0x20, 0xC131, 0xACA9, 0x20, 0xACBD,
     0xD5A5, 0x2C, 0x20, 0xC0B6, 0xC758, 0x20, 0xAE30, 0xBCF8, 0x20, 0xC131, 0xD5A5, 0x2C, 0x20,
     0xAC15, 0xC810, 0xACFC, 0x20, 0xC57D, 0xC810, 0x20, 0xC694, 0xC57D, 0x2A, 0x2A, 0xA]"

definition KNOWN_PLACES :: "ustr list" where
  "KNOWN_PLACES =
    [[0xC11C, 0xC6B8], [0xBD80, 0xC0B0], [0xB300, 0xAD6C], [0xC778, 0xCC9C], [0xAD11, 0xC8FC],
     [0xB300, 0xC804], [0xC6B8, 0xC0B0], [0xC138, 0xC885], [0xACBD, 0xAE30], [0xAC15, 0xC6D0],
     [0xCDA9, 0xBD81], [0xCDA9, 0xB0A8], [0xC804, 0xBD81], [0xC804, 0xB0A8], [0xACBD, 0xBD81],
     [0xACBD, 0xB0A8], [0xC81C, 0xC8FC], [0xAE40, 0xD574], [0xC218, 0xC6D0], [0xCC3D, 0xC6D0],
     [0xC804, 0xC8FC], [0xD3EC, 0xD56D]]"

text \<open>The field names of the session.\<close>

definition k_datetime :: ustr where
  "k_datetime = ascii ''datetime''"

definition k_place :: ustr where
  "k_place = ascii ''place''"

definition k_coordinates :: ustr where
  "k_coordinates = ascii ''coordinates''"

definition k_usergender :: ustr where
  "k_usergender = ascii ''usergender''"

definition k_birthdaytype :: ustr where
  "k_birthdaytype = ascii ''birthdaytype''"

definition k_gochradatetime :: ustr where
  "k_gochradatetime = ascii ''gochradatetime''"

subsection \<open>\<^verbatim>\<open>load_system_prompt\<close>\<close>

definition sys_default_head :: ustr where
  "sys_default_head = [0xC9C0, 0xAE08, 0xC740, 0x20]"

definition sys_default_tail :: ustr where
  "sys_default_tail = [0xC785, 0xB2C8, 0xB2E4, 0x2E]"

definition load_system_prompt :: "env \<Rightarrow> ustr \<Rightarrow> ustr" where
  "load_system_prompt e now =
     (case prompt_file e now of
        Some t \<Rightarrow> t
      | None \<Rightarrow> sys_default_head @ now @ sys_default_tail)"

subsection \<open>\<^verbatim>\<open>resolve_gochra_datetime\<close>\<close>

text \<open>The words for today, tomorrow, the day after tomorrow and Friday.\<close>

definition kw_today :: ustr where
  "kw_today = [0xC624, 0xB298]"

definition kw_tomorrow :: ustr where
  "kw_tomorrow = [0xB0B4, 0xC77C]"

definition kw_day_after :: ustr where
  "kw_day_after = [0xBAA8, 0xB808]"

definition kw_friday :: ustr where
  "kw_friday = [0xAE08, 0xC694, 0xC77C]"

definition resolve_gochra_datetime :: "env \<Rightarrow> ustr \<Rightarrow> ustr" where
  "resolve_gochra_datetime e text0 =
     (let text = str_lower e text0 in
      if contains text kw_today then now_plus_days e 0
      else if contains text kw_tomorrow then now_plus_days e 1
      else if contains text kw_day_after then now_plus_days e 2
      else if contains text kw_friday then
        (let weekday = now_weekday e; days_ahead = (4 - weekday) mod 7
         in now_plus_days e days_ahead)
      else now_plus_days e 0)"

subsection \<open>\<^verbatim>\<open>is_general_mode_request\<close>\<close>

definition general_mode_phrases :: "ustr list" where
  "general_mode_phrases =
    [[0xC77C, 0xBC18, 0xC73C, 0xB85C], [0x61, 0x70, 0x69, 0x20, 0xC5C6, 0xC774], [0xB300, 0xD654,
     0xB9CC]]"

definition is_general_mode_request :: "ustr \<Rightarrow> bool" where
  "is_general_mode_request text = list_ex (contains text) general_mode_phrases"

subsection \<open>\<^verbatim>\<open>get_coordinates\<close>\<close>

definition fallback_coordinates :: ustr where
  "fallback_coordinates = ascii ''35.2721355,128.8452281''"

text \<open>Truth value of a parsed JSON value (\<^verbatim>\<open>if data:\<close>).\<close>

fun json_truthy :: "json \<Rightarrow> bool" where
  "json_truthy JNull = False"
| "json_truthy (JBool b) = b"
| "json_truthy (JNum nonzero _) = nonzero"
| "json_truthy (JStr s) = (s \<noteq> [])"
| "json_truthy (JArr xs) = (xs \<noteq> [])"
| "json_truthy (JObj kvs) = (kvs \<noteq> [])"

text \<open>
  \<^verbatim>\<open>data[0]\<close>: the first element of a list or string; on an object the key 0 is never
  present, since the keys of a parsed JSON object are strings; other values cannot be
  subscripted.
\<close>

fun json_first :: "json \<Rightarrow> pyerr + json" where
  "json_first (JArr xs) = (case xs of [] \<Rightarrow> Inl IndexError | x # _ \<Rightarrow> Inr x)"
| "json_first (JStr s) = (case s of [] \<Rightarrow> Inl IndexError | c # _ \<Rightarrow> Inr (JStr [c]))"
| "json_first (JObj kvs) = Inl KeyError"
| "json_first _ = Inl TypeError"

text \<open>\<^verbatim>\<open>x['lat']\<close>: a member of an object; a list or string wants an integer index.\<close>

fun json_member :: "json \<Rightarrow> ustr \<Rightarrow> pyerr + json" where
  "json_member (JObj kvs) k = (case map_of kvs k of None \<Rightarrow> Inl KeyError | Some v \<Rightarrow> Inr v)"
| "json_member _ k = Inl TypeError"

text \<open>\<^verbatim>\<open>f"{x}"\<close> on a parsed JSON value.\<close>

fun json_format :: "env \<Rightarrow> json \<Rightarrow> ustr" where
  "json_format e JNull = ascii ''None''"
| "json_format e (JBool b) = (if b then ascii ''True'' else ascii ''False'')"
| "json_format e (JNum _ t) = t"
| "json_format e (JStr s) = s"
| "json_format e v = container_str e v"

text \<open>
  The body of the \<^verbatim>\<open>try\<close> block after the response was parsed. Inr None is the case
  \<^verbatim>\<open>if data:\<close> false, where control falls out of the block.
\<close>

definition coordinates_of :: "env \<Rightarrow> json \<Rightarrow> pyerr + ustr option" where
  "coordinates_of e data =
     (if json_truthy data then
        and_then (json_first data) (\<lambda>x.
        and_then (json_member x (ascii ''lat'')) (\<lambda>lat.
        and_then (json_first data) (\<lambda>y.
        and_then (json_member y (ascii ''lon'')) (\<lambda>lon.
        Inr (Some (json_format e lat @ ascii '','' @ json_format e lon))))))
      else Inr None)"

text \<open>The bare \<^verbatim>\<open>except: pass\<close> turns every raise into the fallback.\<close>

definition get_coordinates :: "env \<Rightarrow> ustr \<Rightarrow> ustr" where
  "get_coordinates e place =
     (case geocode e place of
        RequestRaises \<Rightarrow> fallback_coordinates
      | BodyNotJson \<Rightarrow> fallback_coordinates
      | Body data \<Rightarrow>
          (case coordinates_of e data of
             Inl _ \<Rightarrow> fallback_coordinates
           | Inr None \<Rightarrow> fallback_coordinates
           | Inr (Some r) \<Rightarrow> r))"

subsection \<open>\<^verbatim>\<open>extract_gender\<close>\<close>

definition male_words :: "ustr list" where
  "male_words =
    [[0xB0A8, 0xC131], [0xB0A8, 0xC790], [0xB0A8], [0x6D, 0x61, 0x6E], [0x6D, 0x61, 0x6C, 0x65],
     [0x62, 0x6F, 0x79]]"

definition female_words :: "ustr list" where
  "female_words =
    [[0xC5EC, 0xC131], [0xC5EC, 0xC790], [0xC5EC], [0x77, 0x6F, 0x6D, 0x61, 0x6E], [0x66, 0x65,
     0x6D, 0x61, 0x6C, 0x65], [0x67, 0x69, 0x72, 0x6C]]"

definition v_male :: ustr where
  "v_male = [0xB0A8, 0xC131]"

definition v_female :: ustr where
  "v_female = [0xC5EC, 0xC131]"

definition extract_gender :: "env \<Rightarrow> ustr \<Rightarrow> ustr option" where
  "extract_gender e text0 =
     (let text = str_lower e text0 in
      if list_ex (contains text) male_words then Some v_male
      else if list_ex (contains text) female_words then Some v_female
      else None)"

subsection \<open>\<^verbatim>\<open>extract_place\<close>\<close>

text \<open>
  The pattern is \<^verbatim>\<open>([X-Ya-zA-Z]+)[\s]*(S1|S2|S3|S4)\<close>, where X-Y are the Hangul syllables
  U+AC00 to U+D7A3 and S1 to S4 are the four suffixes below.
\<close>

definition place_rx :: rx where
  "place_rx =
     Cat (Grp 1 (Rep 1 None [Rng 0xAC00 0xD7A3, Rng 0x61 0x7A, Rng 0x41 0x5A]))
    (Cat (Rep 0 None [Space])
         (Grp 2 (Alt (Lit [0xC5D0, 0xC11C])
                (Alt (Lit [0xCD9C, 0xC0DD])
                (Alt (Lit [0xD0DC, 0xC5B4, 0xB0AC])
                     (Lit [0xD0DC, 0xC5B4, 0xB09C]))))))"

definition extract_place :: "ustr \<Rightarrow> ustr option" where
  "extract_place text =
     (case search place_rx text of
        Some g \<Rightarrow> g 1
      | None \<Rightarrow> find (contains text) KNOWN_PLACES)"

subsection \<open>\<^verbatim>\<open>parse_and_store_user_info\<close>\<close>

text \<open>
  The date pattern is \<^verbatim>\<open>(\d{4})[N\-/. ]+(\d{1,2})[W\-/. ]+(\d{1,2})[I\s]*\<close> with N, W, I the
  syllables for year (U+B144), month (U+C6D4) and day (U+C77C).
\<close>

definition date_rx :: rx where
  "date_rx =
     Cat (Grp 1 (Rep 4 (Some 4) [Digit]))
    (Cat (Rep 1 None [Ch 0xB144, Ch 0x2D, Ch 0x2F, Ch 0x2E, Ch 0x20])
    (Cat (Grp 2 (Rep 1 (Some 2) [Digit]))
    (Cat (Rep 1 None [Ch 0xC6D4, Ch 0x2D, Ch 0x2F, Ch 0x2E, Ch 0x20])
    (Cat (Grp 3 (Rep 1 (Some 2) [Digit]))
         (Rep 0 None [Ch 0xC77C, Space])))))"

text \<open>
  The time pattern is \<^verbatim>\<open>(AM|PM)?\s*(\d{1,2})H(?:\s*(\d{1,2})M)?\<close> with AM = U+C624 U+C804,
  PM = U+C624 U+D6C4, H the syllable for hour (U+C2DC) and M the one for minute (U+BD84).
\<close>

definition kw_am :: ustr where
  "kw_am = [0xC624, 0xC804]"

definition kw_pm :: ustr where
  "kw_pm = [0xC624, 0xD6C4]"

definition time_rx :: rx where
  "time_rx =
     Cat (Opt (Grp 1 (Alt (Lit kw_am) (Lit kw_pm))))
    (Cat (Rep 0 None [Space])
    (Cat (Grp 2 (Rep 1 (Some 2) [Digit]))
    (Cat (Lit [0xC2DC])
         (Opt (Cat (Rep 0 None [Space])
              (Cat (Grp 3 (Rep 1 (Some 2) [Digit]))
                   (Lit [0xBD84])))))))"

text \<open>The calendar types: lunar and solar.\<close>

definition v_lunar :: ustr where
  "v_lunar = [0xC74C, 0xB825]"

definition v_solar :: ustr where
  "v_solar = [0xC591, 0xB825]"

text \<open>
  The hour and minute texts when a time matched: \<^verbatim>\<open>ampm, h, mm = time_match.groups()\<close>,
  then the conditional expression for \<^verbatim>\<open>hour\<close> and the one for \<^verbatim>\<open>minute\<close>.
\<close>

definition hour_minute :: "groups \<Rightarrow> pyerr + (ustr option \<times> ustr option)" where
  "hour_minute gt =
     (let ampm = gt 1; h = gt 2; mm = gt 3 in
      and_then
        (if ampm = Some kw_pm then
           and_then (py_int h) (\<lambda>n.
             if n < 12 then and_then (py_int h) (\<lambda>n'. Inr (Some (py_str_int (n' + 12))))
             else Inr h)
         else Inr h)
        (\<lambda>hour. Inr (hour, if truthy_str mm then mm else Some (ascii ''00''))))"

text \<open>The value stored under \<^verbatim>\<open>datetime\<close> when a date matched.\<close>

definition datetime_text :: "groups \<Rightarrow> groups option \<Rightarrow> pyerr + ustr" where
  "datetime_text gd time_match =
     (let y = gd 1; m = gd 2; d = gd 3 in
      and_then
        (case time_match of
           None \<Rightarrow> Inr (Some (ascii ''12''), Some (ascii ''00''))
         | Some gt \<Rightarrow> hour_minute gt)
        (\<lambda>(hour, minute).
      and_then (py_int m) (\<lambda>mi.
      and_then (py_int d) (\<lambda>di.
      and_then (py_int hour) (\<lambda>hi.
      and_then (py_int minute) (\<lambda>mini.
        Inr (format_str y @ ascii ''-'' @ format_02d mi @ ascii ''-'' @ format_02d di
             @ ascii ''T'' @ format_02d hi @ ascii '':'' @ format_02d mini
             @ ascii '':00+09:00'')))))))"

definition parse_and_store_user_info :: "env \<Rightarrow> ustr \<Rightarrow> pydict \<Rightarrow> pyerr + pydict" where
  "parse_and_store_user_info e user_input session =
     (let result = session;
          date_match = search date_rx user_input;
          time_match = search time_rx user_input
      in
      and_then
        (case date_match of
           None \<Rightarrow> Inr result
         | Some gd \<Rightarrow>
             and_then (datetime_text gd time_match) (\<lambda>v. Inr (dict_set result k_datetime v)))
        (\<lambda>result.
           let place = extract_place user_input;
               result =
                 (case place of
                    None \<Rightarrow> result
                  | Some p \<Rightarrow>
                      if p \<noteq> [] then
                        dict_set (dict_set result k_place p) k_coordinates (get_coordinates e p)
                      else result);
               gender = extract_gender e user_input;
               result =
                 (case gender of
                    None \<Rightarrow> result
                  | Some gd \<Rightarrow> if gd \<noteq> [] then dict_set result k_usergender gd else result);
               result =
                 dict_set result k_birthdaytype
                   (if contains user_input v_lunar then v_lunar
                    else dict_get_default result k_birthdaytype v_solar);
               result = dict_set result k_gochradatetime (resolve_gochra_datetime e user_input)
           in Inr result))"

subsection \<open>\<^verbatim>\<open>check_missing_fields\<close>\<close>

definition required :: "ustr list" where
  "required = [k_datetime, k_place, k_coordinates, k_usergender]"

definition q_datetime :: ustr where
  "q_datetime = [0x23F0, 0x20, 0xD0DC, 0xC5B4, 0xB09C, 0x20, 0xB0A0, 0xC9DC, 0xC640, 0x20, 0xC2DC, 0xAC04,
     0xC744, 0x20, 0xC54C, 0xB824, 0xC8FC, 0xC138, 0xC694, 0x2E]"

definition q_place :: ustr where
  "q_place = [0x1F4CD, 0x20, 0xD0DC, 0xC5B4, 0xB09C, 0x20, 0xC9C0, 0xC5ED, 0xC744, 0x20, 0xC54C, 0xB824,
     0xC8FC, 0xC138, 0xC694, 0x2E]"

definition q_coordinates :: ustr where
  "q_coordinates = [0x1F310, 0x20, 0xCD9C, 0xC0DD, 0xC9C0, 0x20, 0xC815, 0xBCF4, 0xB97C, 0x20, 0xB354, 0x20,
     0xC815, 0xD655, 0xD788, 0x20, 0xC54C, 0xB824, 0xC8FC, 0xC138, 0xC694, 0x2E]"

definition q_usergender :: ustr where
  "q_usergender = [0x1F464, 0x20, 0xC131, 0xBCC4, 0xC744, 0x20, 0xC54C, 0xB824, 0xC8FC, 0xC138, 0xC694, 0x2E,
     0x20, 0x28, 0xB0A8, 0xC131, 0x2F, 0xC5EC, 0xC131, 0x29]"

definition questions :: pydict where
  "questions =
     [(k_datetime, q_datetime), (k_place, q_place),
      (k_coordinates, q_coordinates), (k_usergender, q_usergender)]"

text \<open>\<^verbatim>\<open>[questions[m] for m in missing]\<close>: a key absent from \<^verbatim>\<open>questions\<close> raises KeyError.\<close>

fun lookup_all :: "pydict \<Rightarrow> ustr list \<Rightarrow> pyerr + ustr list" where
  "lookup_all q [] = Inr []"
| "lookup_all q (m # rest) =
     (case map_of q m of
        None \<Rightarrow> Inl KeyError
      | Some t \<Rightarrow> and_then (lookup_all q rest) (\<lambda>ts. Inr (t # ts)))"

definition check_missing_fields :: "pydict \<Rightarrow> pyerr + ustr list" where
  "check_missing_fields payload =
     (let missing = filter (\<lambda>k. \<not> dict_has payload k) required
      in lookup_all questions missing)"

subsection \<open>\<^verbatim>\<open>call_astrology_api\<close>\<close>

definition api_fail_head :: ustr where
  "api_fail_head = [0x5B, 0x41, 0x50, 0x49, 0x20, 0xC694, 0xCCAD, 0x20, 0xC2E4, 0xD328, 0x5D, 0x3A, 0x20]"

definition call_astrology_api :: "env \<Rightarrow> pydict \<Rightarrow> ustr" where
  "call_astrology_api e payload =
     (case astrology_api e payload of
        Inr body \<Rightarrow> body
      | Inl err \<Rightarrow> api_fail_head @ err)"

subsection \<open>The classifiers and \<^verbatim>\<open>truncate_text\<close>\<close>

definition astrology_keywords :: "ustr list" where
  "astrology_keywords =
    [[0xC6B4, 0xC138], [0xC624, 0xB298], [0xC810, 0xC131], [0xAD81, 0xD569], [0xCC28, 0xD2B8],
     [0xBCC4, 0xC790, 0xB9AC], [0xD589, 0xC131], [0xCD9C, 0xC0DD], [0xC0AC, 0xC8FC], [0xAD81,
     0xB3C4], [0xBD84, 0xC11D, 0xD574, 0x20, 0xC918], [0xBD84, 0xC11D, 0xD574, 0xC8FC, 0xC138,
     0xC694], [0xC54C, 0xB824, 0xC918], [0xCC9C, 0xBB38, 0xB3C4], [0xB77C, 0xC2DC], [0xC810,
     0xC131, 0xD559], [0xCD94, 0xCC9C]]"

definition rasi_keywords :: "ustr list" where
  "rasi_keywords =
    [[0xB77C, 0xC2DC, 0xCC28, 0xD2B8], [0xCC9C, 0xBB38, 0xB3C4], [0xB77C, 0xADF8, 0xB098],
     [0xCC28, 0xD2B8, 0xB97C, 0x20, 0xBD84, 0xC11D]]"

definition is_astrology_query :: "env \<Rightarrow> ustr \<Rightarrow> bool" where
  "is_astrology_query e text = list_ex (\<lambda>k. contains (str_lower e text) k) astrology_keywords"

definition is_rasi_analysis_request :: "env \<Rightarrow> ustr \<Rightarrow> bool" where
  "is_rasi_analysis_request e text = list_ex (\<lambda>k. contains (str_lower e text) k) rasi_keywords"

definition is_short_response :: "ustr \<Rightarrow> bool" where
  "is_short_response text = (length (py_strip text) < 10)"

definition truncate_text :: "ustr \<Rightarrow> nat \<Rightarrow> ustr" where
  "truncate_text text max_chars =
     (if length text \<le> max_chars then text else take max_chars text @ ascii ''...'')"

subsection \<open>What a turn does to the outside\<close>

text \<open>
  The effects of a turn, in order: a chat message sent to the user, a call of the language
  model, a POST to the astrology service, and an exception that leaves \<^verbatim>\<open>handle\<close> uncaught
  (of the language model, with its text, or of the interpreter). Writes to standard output
  are left out.
\<close>

datatype event =
    Send ustr
  | LlmCall "llm_msg list"
  | ApiPost pydict
  | LlmRaised ustr
  | Raised pyerr

subsection \<open>\<^verbatim>\<open>proceed_with_astrology\<close>\<close>

definition rasi_prompt_head :: ustr where
  "rasi_prompt_head = [0xC0AC, 0xC6A9, 0xC790, 0x20, 0xC9C8, 0xBB38, 0x3A, 0x20]"

definition rasi_prompt_mid :: ustr where
  "rasi_prompt_mid = [0xA, 0xA, 0xCD9C, 0xC0DD, 0x20, 0xCC28, 0xD2B8, 0x3A, 0xA]"

definition fortune_prompt_head :: ustr where
  "fortune_prompt_head = [0xC0AC, 0xC6A9, 0xC790, 0x20, 0xC9C8, 0xBB38, 0x3A, 0x20]"

definition fortune_prompt_mid :: ustr where
  "fortune_prompt_mid = [0xA, 0xA, 0xCD9C, 0xC0DD, 0x20, 0xCC28, 0xD2B8, 0x20, 0xBD84, 0xC11D, 0x20, 0xACB0, 0xACFC,
     0x3A, 0xA]"

definition fortune_prompt_tail :: ustr where
  "fortune_prompt_tail = [0xA, 0xA, 0x1F52E, 0x20, 0xC544, 0xB798, 0x20, 0xD615, 0xC2DD, 0xC5D0, 0x20, 0xB530,
     0xB77C, 0x20, 0xC624, 0xB298, 0xC758, 0x20, 0xC6B4, 0xC138, 0xB97C, 0x20, 0xD1B5, 0xBCC0,
     0xD574, 0x20, 0xC8FC, 0xC138, 0xC694, 0x2E, 0x2E, 0x2E, 0xA]"

definition msg_llm_error_head :: ustr where
  "msg_llm_error_head = [0x26A0, 0xFE0F, 0x20, 0x4C, 0x4C, 0x4D, 0x20, 0xC751, 0xB2F5, 0x20, 0xC911, 0x20, 0xC624,
     0xB958, 0xAC00, 0x20, 0xBC1C, 0xC0DD, 0xD588, 0xC2B5, 0xB2C8, 0xB2E4, 0x3A, 0x20]"

definition proceed_with_astrology :: "env \<Rightarrow> pydict \<Rightarrow> ustr \<Rightarrow> event list" where
  "proceed_with_astrology e payload user_input =
     (let system_prompt = SystemMessage (load_system_prompt e (now_kst e));
          api_result = call_astrology_api e payload;
          prompt =
            (if is_rasi_analysis_request e user_input then
               (let short_result = truncate_text api_result 1500
                in rasi_prompt_head @ user_input @ rasi_prompt_mid @ short_result
                   @ [0xA, 0xA] @ rasi_analysis_prompt)
             else
               (let short_result = truncate_text api_result 1000
                in fortune_prompt_head @ user_input @ fortune_prompt_mid @ short_result
                   @ fortune_prompt_tail));
          call = [system_prompt, HumanMessage prompt]
      in [ApiPost payload, LlmCall call] @
         (case llm_invoke e call of
            Inr _ \<Rightarrow> []
          | Inl err \<Rightarrow> [Send (msg_llm_error_head @ err)]))"

subsection \<open>The session and \<^verbatim>\<open>start_chat\<close>\<close>

text \<open>
  The three keys of \<^verbatim>\<open>cl.user_session\<close> that the program uses. \<^verbatim>\<open>general_mode\<close> is read with
  the default False, so a key that was never set reads as False.
\<close>

record session =
  user_info :: pydict
  pending_fields :: "ustr list"
  general_mode :: bool

definition msg_welcome :: ustr where
  "msg_welcome = [0x1F31F, 0x20, 0xC548, 0xB155, 0xD558, 0xC138, 0xC694, 0x21, 0x20, 0xC0DD, 0xB144, 0xC6D4,
     0xC77C, 0x2C, 0x20, 0xCD9C, 0xC0DD, 0xC2DC, 0xAC04, 0x2C, 0x20, 0xCD9C, 0xC0DD, 0xC9C0,
     0xB97C, 0x20, 0xC785, 0xB825, 0xD558, 0xC2DC, 0xBA74, 0x20, 0xC6B4, 0xC138, 0xB97C, 0x20,
     0xC54C, 0xB824, 0xB4DC, 0xB9B4, 0xAC8C, 0xC694, 0x2E, 0x20, 0xB2E4, 0xC74C, 0xCC98, 0xB7FC,
     0x20, 0xC9C8, 0xBB38, 0xD574, 0x20, 0xC8FC, 0xC138, 0xC694, 0x2E, 0x20, 0xC608, 0x29, 0x31,
     0x39, 0x37, 0x36, 0xB144, 0x20, 0x34, 0xC6D4, 0x20, 0x32, 0x37, 0xC77C, 0x20, 0x31, 0x34,
     0xC2DC, 0x20, 0xC11C, 0xC6B8, 0xC5D0, 0xC11C, 0x20, 0xCD9C, 0xC0DD, 0xD55C, 0x20, 0xC5EC,
     0xC790, 0x20, 0xD604, 0xC219, 0xC774, 0xC758, 0x20, 0xB77C, 0xC2DC, 0xCC28, 0xD2B8, 0xB97C,
     0x20, 0xBD84, 0xC11D, 0xD574, 0x20, 0xC918]"

definition start_chat :: "session \<times> event list" where
  "start_chat =
     (\<lparr>user_info = [], pending_fields = [], general_mode = False\<rparr>, [Send msg_welcome])"

subsection \<open>\<^verbatim>\<open>handle\<close>\<close>

definition msg_general_mode_on :: ustr where
  "msg_general_mode_on = [0x1F4AC, 0x20, 0xC774, 0xC81C, 0xBD80, 0xD130, 0xB294, 0x20, 0xC77C, 0xBC18, 0x20, 0xB300,
     0xD654, 0x20, 0xBAA8, 0xB4DC, 0xC785, 0xB2C8, 0xB2E4, 0x2E, 0x20, 0x41, 0x50, 0x49, 0xB294,
     0x20, 0xD638, 0xCD9C, 0xD558, 0xC9C0, 0x20, 0xC54A, 0xC544, 0xC694, 0x21]"

definition kw_recall_1 :: ustr where
  "kw_recall_1 = [0xAE30, 0xC5B5, 0xB41C, 0x20, 0xC815, 0xBCF4]"

definition kw_recall_2 :: ustr where
  "kw_recall_2 = [0xAE30, 0xC5B5, 0xD55C, 0x20, 0xCD9C, 0xC0DD, 0x20, 0xC815, 0xBCF4]"

definition msg_no_info :: ustr where
  "msg_no_info = [0x26A0, 0xFE0F, 0x20, 0xC544, 0xC9C1, 0x20, 0xC785, 0xB825, 0xB41C, 0x20, 0xCD9C, 0xC0DD,
     0x20, 0xC815, 0xBCF4, 0xAC00, 0x20, 0xC5C6, 0xC2B5, 0xB2C8, 0xB2E4, 0x2E]"

definition msg_recall_head :: ustr where
  "msg_recall_head = [0x1F9E0, 0x20, 0xD604, 0xC7AC, 0x20, 0xAE30, 0xC5B5, 0xB41C, 0x20, 0xCD9C, 0xC0DD, 0x20,
     0xC815, 0xBCF4, 0xB294, 0x20, 0xB2E4, 0xC74C, 0xACFC, 0x20, 0xAC19, 0xC544, 0xC694, 0x3A,
     0xA]"

definition sys_note_head :: ustr where
  "sys_note_head = [0xC9C0, 0xAE08, 0xC740, 0x20]"

definition sys_note_tail :: ustr where
  "sys_note_tail = [0xC785, 0xB2C8, 0xB2E4, 0x2E, 0x20, 0xC774, 0x20, 0xC2DC, 0xAC04, 0x20, 0xC815, 0xBCF4,
     0xB97C, 0x20, 0xCC38, 0xACE0, 0xD574, 0xC11C, 0x20, 0xC9C8, 0xBB38, 0xC5D0, 0x20, 0xC815,
     0xD655, 0xD558, 0xAC8C, 0x20, 0xB300, 0xB2F5, 0xD574, 0x20, 0xC8FC, 0xC138, 0xC694, 0x2E]"

text \<open>The general-chat reply: the model is called; what it raises is not caught.\<close>

definition chat_reply :: "env \<Rightarrow> llm_msg list \<Rightarrow> event list" where
  "chat_reply e call =
     (case llm_invoke e call of
        Inr content \<Rightarrow> [LlmCall call, Send content]
      | Inl err \<Rightarrow> [LlmCall call, LlmRaised err])"

definition handle :: "env \<Rightarrow> ustr \<Rightarrow> session \<Rightarrow> session \<times> event list" where
  "handle e content st =
     (let user_input = py_strip content;
          session = user_info st;
          pending = pending_fields st
      in
      if is_general_mode_request user_input then
        (st\<lparr>general_mode := True\<rparr>, [Send msg_general_mode_on])
      else if general_mode st then
        (st, chat_reply e [HumanMessage user_input])
      else if contains user_input kw_recall_1 \<or> contains user_input kw_recall_2 then
        (if session = [] then (st, [Send msg_no_info])
         else
           (let info = join [0xA] (map (\<lambda>(k, v). k @ ascii '': '' @ v) session)
            in (st, [Send (msg_recall_head @ info)])))
      else if is_short_response user_input \<and> pending \<noteq> [] then
        (case parse_and_store_user_info e user_input session of
           Inl err \<Rightarrow> (st, [Raised err])
         | Inr updated \<Rightarrow>
             (let st1 = st\<lparr>user_info := updated, pending_fields := []\<rparr> in
              case check_missing_fields updated of
                Inl err \<Rightarrow> (st1, [Raised err])
              | Inr still_missing \<Rightarrow>
                  if still_missing \<noteq> [] then
                    (st1\<lparr>pending_fields := still_missing\<rparr>, [Send (join [0xA] still_missing)])
                  else (st1, proceed_with_astrology e updated user_input)))
      else if \<not> is_astrology_query e user_input \<and> \<not> is_rasi_analysis_request e user_input then
        (let system_message = SystemMessage (sys_note_head @ now_kst e @ sys_note_tail)
         in (st, chat_reply e [system_message, HumanMessage user_input]))
      else
        (case parse_and_store_user_info e user_input session of
           Inl err \<Rightarrow> (st, [Raised err])
         | Inr updated \<Rightarrow>
             (let st1 = st\<lparr>user_info := updated\<rparr> in
              case check_missing_fields updated of
                Inl err \<Rightarrow> (st1, [Raised err])
              | Inr missing \<Rightarrow>
                  if missing \<noteq> [] then
                    (st1\<lparr>pending_fields := missing\<rparr>, [Send (join [0xA] missing)])
                  else
                    (st1\<lparr>pending_fields := []\<rparr>, proceed_with_astrology e updated user_input))))"

text \<open>A conversation: \<^verbatim>\<open>start_chat\<close>, then one \<^verbatim>\<open>handle\<close> per message, each in its environment.\<close>

fun run_turns :: "(env \<times> ustr) list \<Rightarrow> session \<Rightarrow> session" where
  "run_turns [] st = st"
| "run_turns ((e, content) # ts) st = run_turns ts (fst (handle e content st))"

definition conversation :: "(env \<times> ustr) list \<Rightarrow> session" where
  "conversation ts = run_turns ts (fst start_chat)"

section \<open>Notions used in the properties\<close>

text \<open>A text of between \<open>lo\<close> and \<open>hi\<close> decimal digits, as a group \<^verbatim>\<open>(\d{lo,hi})\<close> captures.\<close>

definition digit_text :: "nat \<Rightarrow> nat \<Rightarrow> ustr \<Rightarrow> bool" where
  "digit_text lo hi w = (lo \<le> length w \<and> length w \<le> hi \<and> list_all py_isdecimal w)"

definition ascii_digit :: "uchar \<Rightarrow> bool" where
  "ascii_digit c = (0x30 \<le> c \<and> c \<le> 0x39)"

text \<open>\<open>slice i n v\<close> is \<^verbatim>\<open>v[i:i+n]\<close>.\<close>

definition slice :: "nat \<Rightarrow> nat \<Rightarrow> ustr \<Rightarrow> ustr" where
  "slice i n v = take n (drop i v)"

text \<open>The number a text of ASCII digits denotes.\<close>

definition ascii_value :: "ustr \<Rightarrow> nat" where
  "ascii_value w = foldl (\<lambda>a c. 10 * a + (c - 0x30)) 0 w"

text \<open>
  The shape the specification gives for the \<^verbatim>\<open>datetime\<close> field: \<^verbatim>\<open>YYYY-MM-DDTHH:MM:00+09:00\<close>
  in ASCII digits, with a valid calendar date and a valid time of day.
\<close>

definition days_in_month :: "nat \<Rightarrow> nat \<Rightarrow> nat" where
  "days_in_month y m =
     (if m = 2 then (if y mod 4 = 0 \<and> (y mod 100 \<noteq> 0 \<or> y mod 400 = 0) then 29 else 28)
      else if m = 4 \<or> m = 6 \<or> m = 9 \<or> m = 11 then 30
      else 31)"

definition spec_datetime :: "ustr \<Rightarrow> bool" where
  "spec_datetime v =
     (length v = 25 \<and>
      list_all ascii_digit (slice 0 4 v) \<and> slice 4 1 v = ascii ''-'' \<and>
      list_all ascii_digit (slice 5 2 v) \<and> slice 7 1 v = ascii ''-'' \<and>
      list_all ascii_digit (slice 8 2 v) \<and> slice 10 1 v = ascii ''T'' \<and>
      list_all ascii_digit (slice 11 2 v) \<and> slice 13 1 v = ascii '':'' \<and>
      list_all ascii_digit (slice 14 2 v) \<and> slice 16 9 v = ascii '':00+09:00'' \<and>
      1 \<le> ascii_value (slice 5 2 v) \<and> ascii_value (slice 5 2 v) \<le> 12 \<and>
      1 \<le> ascii_value (slice 8 2 v) \<and>
      ascii_value (slice 8 2 v)
        \<le> days_in_month (ascii_value (slice 0 4 v)) (ascii_value (slice 5 2 v)) \<and>
      ascii_value (slice 11 2 v) \<le> 23 \<and>
      ascii_value (slice 14 2 v) \<le> 59)"

text \<open>
  The shape the code gives it: four decimal digits as matched, then month, day, hour and
  minute as two ASCII digits each, with the fixed separators, seconds and offset. No range
  is checked.
\<close>

definition committed_shape :: "ustr \<Rightarrow> bool" where
  "committed_shape v =
     (length v = 25 \<and>
      list_all py_isdecimal (slice 0 4 v) \<and> slice 4 1 v = ascii ''-'' \<and>
      list_all ascii_digit (slice 5 2 v) \<and> slice 7 1 v = ascii ''-'' \<and>
      list_all ascii_digit (slice 8 2 v) \<and> slice 10 1 v = ascii ''T'' \<and>
      list_all ascii_digit (slice 11 2 v) \<and> slice 13 1 v = ascii '':'' \<and>
      list_all ascii_digit (slice 14 2 v) \<and> slice 16 9 v = ascii '':00+09:00'')"

text \<open>A one-digit text padded with a zero to two digits.\<close>

definition pad2 :: "ustr \<Rightarrow> ustr" where
  "pad2 w = (if length w = 1 then 0x30 # w else w)"

text \<open>
  An environment for the concrete runs below: lower-casing of the ASCII letters, a place
  search that cannot be reached, a clock standing at a Monday morning, no prompt file, an
  astrology service that fails and a language model that answers \<^verbatim>\<open>ok\<close>.
\<close>

definition test_env :: env where
  "test_env =
     \<lparr>str_lower = map (\<lambda>c. if 0x41 \<le> c \<and> c \<le> 0x5A then c + 0x20 else c),
      geocode = (\<lambda>_. RequestRaises),
      container_str = (\<lambda>_. []),
      now_weekday = 0,
      now_plus_days = (\<lambda>_. ascii ''2025-01-06T09:30:00+09:00''),
      now_kst = [],
      prompt_file = (\<lambda>_. None),
      astrology_api = (\<lambda>_. Inl []),
      llm_invoke = (\<lambda>_. Inr (ascii ''ok''))\<rparr>"

text \<open>
  The same environment with a place search that answers with one result whose \<^verbatim>\<open>lat\<close> and
  \<^verbatim>\<open>lon\<close> members are both \<^verbatim>\<open>null\<close>.
\<close>

definition null_members_env :: env where
  "null_members_env =
     test_env\<lparr>geocode :=
       \<lambda>_. Body (JArr [JObj [(ascii ''lat'', JNull), (ascii ''lon'', JNull)]])\<rparr>"

text \<open>
  \<open>no_match_in r pre s\<close>: in the text \<open>pre @ s\<close> the pattern \<open>r\<close> has no match that starts
  inside \<open>pre\<close>, so that \<^verbatim>\<open>re.search\<close> on \<open>pre @ s\<close> finds what it finds on \<open>s\<close>.
\<close>

fun no_match_in :: "rx \<Rightarrow> ustr \<Rightarrow> ustr \<Rightarrow> bool" where
  "no_match_in r [] s = True"
| "no_match_in r (c # pre) s = (ms r (Map.empty, c # pre @ s) = [] \<and> no_match_in r pre s)"

text \<open>
  The part of \<^verbatim>\<open>parse_and_store_user_info\<close> that follows the \<^verbatim>\<open>datetime\<close> assignment, as a
  function of the mapping that assignment leaves.
\<close>

definition after_datetime :: "env \<Rightarrow> ustr \<Rightarrow> pydict \<Rightarrow> pydict" where
  "after_datetime e user_input result0 =
     (let place = extract_place user_input;
          result1 =
            (case place of
               None \<Rightarrow> result0
             | Some p \<Rightarrow>
                 if p \<noteq> [] then
                   dict_set (dict_set result0 k_place p) k_coordinates (get_coordinates e p)
                 else result0);
          gender = extract_gender e user_input;
          result2 =
            (case gender of
               None \<Rightarrow> result1
             | Some gd \<Rightarrow> if gd \<noteq> [] then dict_set result1 k_usergender gd else result1);
          result3 =
            dict_set result2 k_birthdaytype
              (if contains user_input v_lunar then v_lunar
               else dict_get_default result2 k_birthdaytype v_solar)
      in dict_set result3 k_gochradatetime (resolve_gochra_datetime e user_input))"

section \<open>Properties\<close>

subsection \<open>Evaluation\<close>

text \<open>The equations that evaluate the model on a concrete message.\<close>

lemmas eval_defs =
  ascii_def contains_def sublist_code py_isspace_def whitespace_chars_def py_decimal_def
  decimal_runs_def py_isdecimal_def in_class_def date_rx_def time_rx_def place_rx_def Let_def
  and_then_def str_nat.simps py_int_def py_str_int_def format_02d_def format_str_def
  truthy_str_def kw_am_def kw_pm_def py_strip_def is_general_mode_request_def
  general_mode_phrases_def

lemmas key_defs =
  k_datetime_def k_place_def k_coordinates_def k_usergender_def k_birthdaytype_def
  k_gochradatetime_def ascii_def

lemmas run_defs =
  handle_def parse_and_store_user_info_def datetime_text_def hour_minute_def extract_place_def
  extract_gender_def resolve_gochra_datetime_def get_coordinates_def check_missing_fields_def
  is_astrology_query_def is_rasi_analysis_request_def is_short_response_def
  KNOWN_PLACES_def male_words_def female_words_def astrology_keywords_def rasi_keywords_def
  kw_recall_1_def kw_recall_2_def kw_today_def kw_tomorrow_def kw_day_after_def kw_friday_def
  v_lunar_def v_solar_def required_def questions_def fallback_coordinates_def
  dict_get_def dict_has_def dict_get_default_def test_env_def conversation_def start_chat_def

subsection \<open>Dictionaries, digits and numbers\<close>

lemma map_of_dict_set: "map_of (dict_set d k v) = (map_of d)(k \<mapsto> v)"
  by (induction d) (auto simp: fun_eq_iff)

lemma dict_get_set: "dict_get (dict_set d k v) k' = (if k' = k then Some v else dict_get d k')"
  by (simp add: dict_get_def map_of_dict_set)

lemma dict_has_set: "dict_has (dict_set d k v) k' = (k' = k \<or> dict_has d k')"
  by (simp add: dict_has_def map_of_dict_set)

lemma py_decimal_less: "py_decimal c = Some v \<Longrightarrow> v < 10"
proof -
  assume a: "py_decimal c = Some v"
  let ?xs = "filter (\<lambda>s. s \<le> c \<and> c < s + 10) decimal_runs"
  from a obtain s rest where xs: "?xs = s # rest" and v: "v = c - s"
    by (auto simp: py_decimal_def split: list.splits)
  have "s \<in> set ?xs" by (simp add: xs)
  then have "s \<le> c \<and> c < s + 10" by simp
  with v show ?thesis by arith
qed

lemma py_decimal_ascii: "0x30 \<le> c \<Longrightarrow> c < 0x3A \<Longrightarrow> py_decimal c = Some (c - 0x30)"
  by (simp add: py_decimal_def decimal_runs_def)

lemma decimal_value_bounds:
  "list_all py_isdecimal w \<Longrightarrow> 0 \<le> acc \<Longrightarrow>
   \<exists>n. decimal_value w acc = Inr n \<and> acc * 10 ^ length w \<le> n \<and> n < (acc + 1) * 10 ^ length w"
proof (induction w arbitrary: acc)
  case Nil
  then show ?case by simp
next
  case (Cons c w)
  from Cons.prems obtain v where v: "py_decimal c = Some v"
    by (auto simp: py_isdecimal_def)
  then have v10: "v < 10" by (rule py_decimal_less)
  from Cons.prems have w: "list_all py_isdecimal w" by simp
  have "0 \<le> 10 * acc + int v" using Cons.prems by simp
  from Cons.IH [OF w this] obtain n where
    n: "decimal_value w (10 * acc + int v) = Inr n"
       "(10 * acc + int v) * 10 ^ length w \<le> n"
       "n < (10 * acc + int v + 1) * 10 ^ length w" by blast
  have lo: "acc * 10 ^ length (c # w) \<le> (10 * acc + int v) * 10 ^ length w"
    by (simp add: algebra_simps)
  have "(10 * acc + int v + 1) \<le> (acc + 1) * 10" using v10 by simp
  then have "(10 * acc + int v + 1) * 10 ^ length w \<le> ((acc + 1) * 10) * 10 ^ length w"
    by (rule mult_right_mono) simp
  then have hi: "(10 * acc + int v + 1) * 10 ^ length w \<le> (acc + 1) * 10 ^ length (c # w)"
    by (simp add: algebra_simps)
  have eq: "decimal_value (c # w) acc = Inr n" using v n(1) by simp
  have A: "acc * 10 ^ length (c # w) \<le> n" using lo n(2) by linarith
  have B: "n < (acc + 1) * 10 ^ length (c # w)" using hi n(3) by linarith
  show ?case using eq A B by blast
qed

lemma py_int_digit_text:
  assumes "digit_text (Suc 0) 2 w"
  shows "\<exists>n. py_int (Some w) = Inr n \<and> 0 \<le> n \<and> n < 100"
proof -
  from assms have w: "list_all py_isdecimal w" and l: "length w = 1 \<or> length w = 2" and ne: "w \<noteq> []"
    by (auto simp: digit_text_def)
  from decimal_value_bounds [OF w, of 0] obtain n where
    n: "decimal_value w 0 = Inr n" "0 \<le> n" "n < 10 ^ length w" by auto
  from l n(3) have "n < 100" by auto
  with n ne show ?thesis by (simp add: py_int_def)
qed

lemma str_nat_two: "10 \<le> n \<Longrightarrow> n < 100 \<Longrightarrow> str_nat n = [0x30 + n div 10, 0x30 + n mod 10]"
  by (subst str_nat.simps, subst str_nat.simps) simp

lemma str_nat_one: "n < 10 \<Longrightarrow> str_nat n = [0x30 + n]"
  by (subst str_nat.simps) simp

lemma format_02d_two:
  "0 \<le> n \<Longrightarrow> n < 100 \<Longrightarrow> format_02d n = [0x30 + nat n div 10, 0x30 + nat n mod 10]"
  by (cases "n < 10") (simp_all add: format_02d_def py_str_int_def str_nat_one str_nat_two)

lemma py_int_str_two:
  assumes "10 \<le> n" "n < 100"
  shows "py_int (Some (py_str_int n)) = Inr n"
proof -
  have a: "nat n div 10 < 10" "nat n mod 10 < 10" using assms by auto
  have "py_str_int n = [0x30 + nat n div 10, 0x30 + nat n mod 10]"
    using assms by (simp add: py_str_int_def str_nat_two)
  moreover have "py_decimal (0x30 + nat n div 10) = Some (nat n div 10)"
    using a by (simp add: py_decimal_ascii)
  moreover have "py_decimal (0x30 + nat n mod 10) = Some (nat n mod 10)"
    using a by (simp add: py_decimal_ascii)
  ultimately show ?thesis using assms by (simp add: py_int_def zdiv_int zmod_int)
qed


subsection \<open>The matcher\<close>

lemma ms_suffix: "(g', r) \<in> set (ms rx (g, s)) \<Longrightarrow> \<exists>w. s = w @ r"
proof (induction rx arbitrary: g s g' r)
  case (Lit l)
  then show ?case by (auto simp: prefix_def split: if_splits)
next
  case (Cat a b)
  from Cat.prems obtain g1 r1 where
    a: "(g1, r1) \<in> set (ms a (g, s))" and b: "(g', r) \<in> set (ms b (g1, r1))" by auto
  from Cat.IH(1) [OF a] obtain w1 where "s = w1 @ r1" by blast
  moreover from Cat.IH(2) [OF b] obtain w2 where "r1 = w2 @ r" by blast
  ultimately have "s = (w1 @ w2) @ r" by simp
  then show ?case by blast
next
  case (Alt a b)
  then show ?case by auto
next
  case (Opt a)
  then show ?case by auto
next
  case (Rep lo hi cs)
  then obtain k where "r = drop k s" by (auto simp: Let_def)
  then have "s = take k s @ r" by simp
  then show ?case by blast
next
  case (Grp i a)
  then show ?case by auto
qed

lemma search_Some: "search r s = Some g \<Longrightarrow> \<exists>s' rest. (g, rest) \<in> set (ms r (Map.empty, s'))"
proof (induction s)
  case Nil
  then obtain st sts where "ms r (Map.empty, []) = st # sts" "fst st = g"
    by (auto split: list.splits)
  then have "(g, snd st) \<in> set (ms r (Map.empty, []))" by (cases st) simp
  then show ?case by blast
next
  case (Cons c s)
  show ?case
  proof (cases "ms r (Map.empty, c # s)")
    case Nil
    with Cons show ?thesis by simp
  next
    case (Cons st sts)
    with Cons.prems have "fst st = g" by simp
    with Cons have "(g, snd st) \<in> set (ms r (Map.empty, c # s))" by (cases st) simp
    then show ?thesis by blast
  qed
qed

lemma ms_Cat_iff:
  "(g', r) \<in> set (ms (Cat a b) st) \<longleftrightarrow>
   (\<exists>g1 r1. (g1, r1) \<in> set (ms a st) \<and> (g', r) \<in> set (ms b (g1, r1)))"
  by auto

lemma ms_Opt_iff: "x \<in> set (ms (Opt a) st) \<longleftrightarrow> x \<in> set (ms a st) \<or> x = st"
  by auto

lemma ms_Lit_keeps: "(g', r) \<in> set (ms (Lit l) (g, s)) \<Longrightarrow> g' = g"
  by (auto split: if_splits)

lemma ms_Rep_elem:
  assumes "(g', r) \<in> set (ms (Rep lo hi cs) (g, s))"
  shows "g' = g \<and> (\<exists>k. lo \<le> k \<and> k \<le> length (takeWhile (in_class cs) s) \<and>
                  (\<forall>h. hi = Some h \<longrightarrow> k \<le> h) \<and> r = drop k s)"
proof -
  define n where "n = length (takeWhile (in_class cs) s)"
  define m where "m = (case hi of None \<Rightarrow> n | Some h \<Rightarrow> min h n)"
  have "ms (Rep lo hi cs) (g, s) = map (\<lambda>k. (g, drop k s)) (rev [lo..<Suc m])"
    unfolding n_def m_def by (simp add: Let_def del: upt_Suc)
  with assms have "(g', r) \<in> (\<lambda>k. (g, drop k s)) ` {lo..<Suc m}"
    by (simp del: upt_Suc ms.simps)
  then obtain k where k: "lo \<le> k" "k \<le> m" "r = drop k s" "g' = g" by auto
  have "m \<le> n" by (simp add: m_def split: option.splits)
  with k(2) have kn: "k \<le> length (takeWhile (in_class cs) s)" by (simp add: n_def)
  have "\<forall>h. hi = Some h \<longrightarrow> m \<le> h" by (simp add: m_def)
  with k(2) have kh: "\<forall>h. hi = Some h \<longrightarrow> k \<le> h" by auto
  from k(1,3,4) kn kh show ?thesis by blast
qed

lemma ms_Rep_keeps: "(g', r) \<in> set (ms (Rep lo hi cs) (g, s)) \<Longrightarrow> g' = g"
  by (simp add: ms_Rep_elem)

lemma take_in_run:
  assumes "k \<le> length (takeWhile P s)"
  shows "list_all P (take k s)"
proof -
  have "take k s = take k (takeWhile P s @ dropWhile P s)" by simp
  also have "\<dots> = take k (takeWhile P s)"
    using assms by (simp del: takeWhile_dropWhile_id)
  finally have "take k s = take k (takeWhile P s)" .
  moreover have "list_all P (take k (takeWhile P s))"
    by (auto simp: list_all_iff dest: in_set_takeD set_takeWhileD)
  ultimately show ?thesis by simp
qed

lemma ms_Grp_digits:
  assumes "(g', r) \<in> set (ms (Grp i (Rep lo (Some hi) [Digit])) (g, s))"
  shows "\<exists>w. g' = g(i \<mapsto> w) \<and> digit_text lo hi w"
proof -
  from assms obtain g2 where
    a: "(g2, r) \<in> set (ms (Rep lo (Some hi) [Digit]) (g, s))"
    and g': "g' = g2(i \<mapsto> take (length s - length r) s)" by auto
  from ms_Rep_elem [OF a] obtain k where
    k: "g2 = g" "lo \<le> k" "k \<le> length (takeWhile (in_class [Digit]) s)" "k \<le> hi" "r = drop k s"
    by auto
  have kl: "k \<le> length s" using k(3) length_takeWhile_le [of "in_class [Digit]" s] by simp
  then have tk: "take (length s - length r) s = take k s" using k(5) by simp
  have "list_all (in_class [Digit]) (take k s)" using k(3) by (rule take_in_run)
  then have "list_all py_isdecimal (take k s)" by (simp add: in_class_def list_all_iff)
  then have "digit_text lo hi (take k s)" using k(2,4) kl by (simp add: digit_text_def)
  with g' k(1) tk show ?thesis by auto
qed

lemma ms_Grp_Lit2:
  assumes "(g', r) \<in> set (ms (Grp i (Alt (Lit a) (Lit b))) (g, s))"
  shows "g' = g(i \<mapsto> a) \<or> g' = g(i \<mapsto> b)"
  using assms by (auto simp: prefix_def split: if_splits)

lemma date_groups:
  assumes "search date_rx s = Some g"
  shows "\<exists>y m d. g 1 = Some y \<and> g 2 = Some m \<and> g 3 = Some d \<and>
           digit_text 4 4 y \<and> digit_text (Suc 0) 2 m \<and> digit_text (Suc 0) 2 d"
proof -
  from search_Some [OF assms] obtain s' rest where
    "(g, rest) \<in> set (ms date_rx (Map.empty, s'))" by blast
  then show ?thesis
    unfolding date_rx_def
    by (auto simp del: ms.simps simp: ms_Cat_iff dest!: ms_Grp_digits ms_Rep_keeps)
qed

lemma time_groups:
  assumes "search time_rx s = Some g"
  shows "(g 1 = None \<or> g 1 = Some kw_am \<or> g 1 = Some kw_pm) \<and>
         (\<exists>h. g 2 = Some h \<and> digit_text (Suc 0) 2 h) \<and>
         (g 3 = None \<or> (\<exists>mm. g 3 = Some mm \<and> digit_text (Suc 0) 2 mm))"
proof -
  from search_Some [OF assms] obtain s' rest where
    "(g, rest) \<in> set (ms time_rx (Map.empty, s'))" by blast
  then show ?thesis
    unfolding time_rx_def
    by (auto simp del: ms.simps simp: ms_Cat_iff ms_Opt_iff
          dest!: ms_Grp_digits ms_Rep_keeps ms_Grp_Lit2 ms_Lit_keeps)
qed

subsection \<open>The missing-field validator\<close>

lemma check_missing_fields_eq:
  "check_missing_fields payload =
     Inr ((if dict_has payload k_datetime then [] else [q_datetime]) @
          (if dict_has payload k_place then [] else [q_place]) @
          (if dict_has payload k_coordinates then [] else [q_coordinates]) @
          (if dict_has payload k_usergender then [] else [q_usergender]))"
  by (simp add: check_missing_fields_def required_def questions_def and_then_def key_defs)

text \<open>
  Claim C5. For every fields mapping, \<^verbatim>\<open>check_missing_fields\<close> raises nothing and returns
  exactly the prompts of the required keys \<^verbatim>\<open>datetime\<close>, \<^verbatim>\<open>place\<close>, \<^verbatim>\<open>coordinates\<close>,
  \<^verbatim>\<open>usergender\<close> that are absent from the mapping, in that order; the result is empty if and
  only if all four keys are present.
\<close>

theorem check_missing_fields_prompts:
  "check_missing_fields payload =
     Inr ((if dict_has payload k_datetime then [] else [q_datetime]) @
          (if dict_has payload k_place then [] else [q_place]) @
          (if dict_has payload k_coordinates then [] else [q_coordinates]) @
          (if dict_has payload k_usergender then [] else [q_usergender]))
   \<and> (check_missing_fields payload = Inr [] \<longleftrightarrow>
        dict_has payload k_datetime \<and> dict_has payload k_place \<and>
        dict_has payload k_coordinates \<and> dict_has payload k_usergender)"
  by (simp add: check_missing_fields_eq)

text \<open>
  A run of C5: with only \<^verbatim>\<open>place\<close> and \<^verbatim>\<open>usergender\<close> stored, the prompts for \<^verbatim>\<open>datetime\<close>
  and \<^verbatim>\<open>coordinates\<close> come back, in this order.
\<close>

theorem check_missing_fields_prompts_witness:
  "check_missing_fields [(k_usergender, v_female), (k_place, [0xC11C, 0xC6B8])] =
     Inr [q_datetime, q_coordinates]"
  using check_missing_fields_prompts
          [of "[(k_usergender, v_female), (k_place, [0xC11C, 0xC6B8])]"]
  by (simp add: dict_has_def key_defs)

subsection \<open>General mode\<close>

lemma dropWhile_keeps_run:
  assumes "p \<noteq> []" "\<not> P (hd p)"
  shows "\<exists>ps'. dropWhile P (ps @ p @ ss) = ps' @ p @ ss"
proof (cases "\<forall>x\<in>set ps. P x")
  case True
  from assms obtain a p' where p: "p = a # p'" "\<not> P a" by (cases p) auto
  from True have "dropWhile P (ps @ p @ ss) = dropWhile P (p @ ss)" by simp
  also have "\<dots> = [] @ p @ ss" using p by simp
  finally show ?thesis by blast
next
  case False
  then obtain x where "x \<in> set ps" "\<not> P x" by blast
  then have "dropWhile P (ps @ p @ ss) = dropWhile P ps @ p @ ss"
    by (rule dropWhile_append1)
  then show ?thesis by blast
qed

text \<open>Stripping the message keeps a phrase that neither starts nor ends with whitespace.\<close>

lemma contains_strip:
  assumes "contains text p" "p \<noteq> []" "\<not> py_isspace (hd p)" "\<not> py_isspace (last p)"
  shows "contains (py_strip text) p"
proof -
  from assms(1) obtain ps ss where t: "text = ps @ p @ ss"
    by (auto simp: contains_def sublist_def)
  from dropWhile_keeps_run [of p py_isspace ps ss] assms(2,3) obtain ps' where
    a: "dropWhile py_isspace text = ps' @ p @ ss" unfolding t by blast
  have "rev p \<noteq> []" "\<not> py_isspace (hd (rev p))" using assms(2,4) by (simp_all add: hd_rev)
  with dropWhile_keeps_run [of "rev p" py_isspace "rev ss" "rev ps'"] obtain ss' where
    b: "dropWhile py_isspace (rev ss @ rev p @ rev ps') = ss' @ rev p @ rev ps'" by blast
  have "py_strip text = ps' @ p @ rev ss'"
    by (simp add: py_strip_def a b)
  then show ?thesis by (auto simp: contains_def sublist_def)
qed

lemma toggle_after_strip:
  assumes "is_general_mode_request content"
  shows "is_general_mode_request (py_strip content)"
proof -
  from assms obtain p where p: "p \<in> set general_mode_phrases" "contains content p"
    by (auto simp: is_general_mode_request_def list_ex_iff)
  from p(1) have "p \<noteq> [] \<and> \<not> py_isspace (hd p) \<and> \<not> py_isspace (last p)"
    by (auto simp: general_mode_phrases_def py_isspace_def whitespace_chars_def)
  with p(2) have "contains (py_strip content) p" by (simp add: contains_strip)
  with p(1) show ?thesis by (auto simp: is_general_mode_request_def list_ex_iff)
qed

lemma handle_in_general_mode:
  assumes "general_mode st"
  shows "handle e content st =
           (st, if is_general_mode_request (py_strip content) then [Send msg_general_mode_on]
                else chat_reply e [HumanMessage (py_strip content)])"
  using assms by (simp add: handle_def Let_def)

lemma handle_keeps_general_mode: "general_mode st \<Longrightarrow> general_mode (fst (handle e content st))"
  by (simp add: handle_in_general_mode)

lemma run_turns_keeps_general_mode: "general_mode st \<Longrightarrow> general_mode (run_turns ts st)"
proof (induction ts arbitrary: st)
  case Nil
  then show ?case by simp
next
  case (Cons t ts)
  obtain e content where t: "t = (e, content)" by (cases t)
  from Cons.prems have "general_mode (fst (handle e content st))"
    by (rule handle_keeps_general_mode)
  then show ?case unfolding t by (simp add: Cons.IH)
qed

text \<open>
  Claim C1, as amended. In a turn in which \<^verbatim>\<open>general_mode\<close> is already true the session is
  left as it is and no field is extracted, but the toggle-phrase check still comes first:
  when the stripped message contains a toggle phrase, the only effect is the confirmation
  message and the language model is not called; otherwise the language model is called
  with the stripped message alone and its answer is sent.
\<close>

theorem general_mode_turn:
  assumes "general_mode st"
  shows "handle e content st =
           (st, if is_general_mode_request (py_strip content) then [Send msg_general_mode_on]
                else chat_reply e [HumanMessage (py_strip content)])"
  using assms by (rule handle_in_general_mode)

text \<open>
  A run of the amended C1: in general mode, the message \<^verbatim>\<open>hi\<close> between two spaces goes to
  the language model stripped, and the answer is sent.
\<close>

theorem general_mode_turn_witness:
  "general_mode \<lparr>user_info = [], pending_fields = [], general_mode = True\<rparr> \<and>
   handle test_env (ascii '' hi '')
     \<lparr>user_info = [], pending_fields = [], general_mode = True\<rparr> =
   (\<lparr>user_info = [], pending_fields = [], general_mode = True\<rparr>,
    [LlmCall [HumanMessage (ascii ''hi'')], Send (ascii ''ok'')])"
  using general_mode_turn
          [of "\<lparr>user_info = [], pending_fields = [], general_mode = True\<rparr>"
              test_env "ascii '' hi ''"]
  by (simp add: eval_defs chat_reply_def test_env_def)

text \<open>
  C1 as stated fails: in general mode, the message consisting of the first toggle phrase
  (U+C77C U+BC18 U+C73C U+B85C) is answered with the confirmation; the language model is
  not called.
\<close>

theorem general_mode_toggle_checked_first:
  "handle test_env [0xC77C, 0xBC18, 0xC73C, 0xB85C]
     \<lparr>user_info = [], pending_fields = [], general_mode = True\<rparr> =
   (\<lparr>user_info = [], pending_fields = [], general_mode = True\<rparr>, [Send msg_general_mode_on])
   \<and> handle test_env [0xC77C, 0xBC18, 0xC73C, 0xB85C]
        \<lparr>user_info = [], pending_fields = [], general_mode = True\<rparr> \<noteq>
      (\<lparr>user_info = [], pending_fields = [], general_mode = True\<rparr>,
       chat_reply test_env [HumanMessage [0xC77C, 0xBC18, 0xC73C, 0xB85C]])"
  by (simp add: handle_def eval_defs chat_reply_def test_env_def)

text \<open>
  Claim C7. A turn whose message contains a toggle phrase ends with \<^verbatim>\<open>general_mode\<close> true,
  whatever the session was; and from a session in which \<^verbatim>\<open>general_mode\<close> is true, every
  sequence of further turns ends in a session in which it is true.
\<close>

theorem general_mode_stays_on:
  "(is_general_mode_request content \<longrightarrow> general_mode (fst (handle e content st))) \<and>
   (general_mode st' \<longrightarrow> general_mode (run_turns ts st'))"
proof
  show "is_general_mode_request content \<longrightarrow> general_mode (fst (handle e content st))"
    by (auto dest: toggle_after_strip simp: handle_def Let_def)
  show "general_mode st' \<longrightarrow> general_mode (run_turns ts st')"
    by (simp add: run_turns_keeps_general_mode)
qed

text \<open>
  A run of C7: the third toggle phrase (U+B300 U+D654 U+B9CC) between spaces switches a
  fresh session to general mode, and two further turns, one of them an astrology question
  (U+C6B4 U+C138), leave it on.
\<close>

theorem general_mode_stays_on_witness:
  "is_general_mode_request [0x20, 0xB300, 0xD654, 0xB9CC, 0x20] \<and>
   general_mode (fst (handle test_env [0x20, 0xB300, 0xD654, 0xB9CC, 0x20] (fst start_chat))) \<and>
   general_mode
     (run_turns [(test_env, [0xC6B4, 0xC138]), (test_env, ascii ''hello'')]
        (fst (handle test_env [0x20, 0xB300, 0xD654, 0xB9CC, 0x20] (fst start_chat))))"
proof -
  have a: "is_general_mode_request [0x20, 0xB300, 0xD654, 0xB9CC, 0x20]"
    by (simp add: eval_defs)
  from general_mode_stays_on
         [of "[0x20, 0xB300, 0xD654, 0xB9CC, 0x20]" test_env "fst start_chat"
             "fst (handle test_env [0x20, 0xB300, 0xD654, 0xB9CC, 0x20] (fst start_chat))"
             "[(test_env, [0xC6B4, 0xC138]), (test_env, ascii ''hello'')]"]
  show ?thesis using a by blast
qed

subsection \<open>The date and time text\<close>

lemma py_int_zero2: "py_int (Some (ascii ''00'')) = Inr 0"
  by (simp add: eval_defs)

lemma py_int_twelve: "py_int (Some (ascii ''12'')) = Inr 12"
  by (simp add: eval_defs)

lemma hour_minute_ok:
  assumes "search time_rx s = Some gt"
  shows "\<exists>h hour minute hi ki.
           py_int (gt 2) = Inr h \<and> hour_minute gt = Inr (hour, minute) \<and>
           py_int hour = Inr hi \<and> hi = (if gt 1 = Some kw_pm \<and> h < 12 then h + 12 else h) \<and>
           py_int minute = Inr ki \<and> 0 \<le> hi \<and> hi < 100 \<and> 0 \<le> ki \<and> ki < 100"
proof -
  from time_groups [OF assms] obtain ht where
    ht: "gt 2 = Some ht" "digit_text (Suc 0) 2 ht" and
    mm: "gt 3 = None \<or> (\<exists>mm. gt 3 = Some mm \<and> digit_text (Suc 0) 2 mm)" by blast
  from py_int_digit_text [OF ht(2)] obtain h where
    h: "py_int (Some ht) = Inr h" "0 \<le> h" "h < 100" by blast
  define hi where "hi = (if gt 1 = Some kw_pm \<and> h < 12 then h + 12 else h)"
  define hour where "hour = (if gt 1 = Some kw_pm \<and> h < 12 then Some (py_str_int (h + 12)) else Some ht)"
  have hr: "py_int hour = Inr hi"
    using h by (simp add: hour_def hi_def py_int_str_two)
  have hib: "0 \<le> hi" "hi < 100" using h by (auto simp: hi_def)
  from mm obtain minute ki where
    mi: "minute = (if truthy_str (gt 3) then gt 3 else Some (ascii ''00''))"
        "py_int minute = Inr ki" "0 \<le> ki" "ki < 100"
  proof
    assume "gt 3 = None"
    then have "(if truthy_str (gt 3) then gt 3 else Some (ascii ''00'')) = Some (ascii ''00'')"
      by (simp add: truthy_str_def)
    with py_int_zero2 show ?thesis using that [of "Some (ascii ''00'')" 0] by simp
  next
    assume "\<exists>mm. gt 3 = Some mm \<and> digit_text (Suc 0) 2 mm"
    then obtain mm where m: "gt 3 = Some mm" "digit_text (Suc 0) 2 mm" by blast
    from py_int_digit_text [OF m(2)] obtain k where
      k: "py_int (Some mm) = Inr k" "0 \<le> k" "k < 100" by blast
    from m have "mm \<noteq> []" by (auto simp: digit_text_def)
    with m have "(if truthy_str (gt 3) then gt 3 else Some (ascii ''00'')) = Some mm"
      by (simp add: truthy_str_def)
    with k show ?thesis using that [of "Some mm" k] by simp
  qed
  have "hour_minute gt = Inr (hour, minute)"
    using h ht(1) by (simp add: hour_minute_def Let_def and_then_def hour_def mi(1))
  moreover have "py_int (gt 2) = Inr h" using h(1) ht(1) by simp
  moreover note hr hi_def mi(2) hib mi(3,4)
  ultimately show ?thesis
    by (rule_tac x = h in exI, rule_tac x = hour in exI, rule_tac x = minute in exI,
        rule_tac x = hi in exI, rule_tac x = ki in exI) simp
qed

lemma datetime_text_ok:
  assumes "search date_rx s = Some gd"
  shows "\<exists>y mi di hi ki.
           gd 1 = Some y \<and> digit_text 4 4 y \<and>
           py_int (gd 2) = Inr mi \<and> 0 \<le> mi \<and> mi < 100 \<and>
           py_int (gd 3) = Inr di \<and> 0 \<le> di \<and> di < 100 \<and>
           0 \<le> hi \<and> hi < 100 \<and> 0 \<le> ki \<and> ki < 100 \<and>
           (case search time_rx s' of
              None \<Rightarrow> hi = 12 \<and> ki = 0
            | Some gt \<Rightarrow>
                \<exists>h. py_int (gt 2) = Inr h \<and>
                    hi = (if gt 1 = Some kw_pm \<and> h < 12 then h + 12 else h)) \<and>
           datetime_text gd (search time_rx s') =
             Inr (y @ ascii ''-'' @ format_02d mi @ ascii ''-'' @ format_02d di @ ascii ''T''
                  @ format_02d hi @ ascii '':'' @ format_02d ki @ ascii '':00+09:00'')"
proof -
  from date_groups [OF assms] obtain y m d where
    g: "gd 1 = Some y" "gd 2 = Some m" "gd 3 = Some d" and
    dt: "digit_text 4 4 y" "digit_text (Suc 0) 2 m" "digit_text (Suc 0) 2 d" by blast
  from py_int_digit_text [OF dt(2)] obtain mi where
    mi: "py_int (Some m) = Inr mi" "0 \<le> mi" "mi < 100" by blast
  from py_int_digit_text [OF dt(3)] obtain di where
    di: "py_int (Some d) = Inr di" "0 \<le> di" "di < 100" by blast
  show ?thesis
  proof (cases "search time_rx s'")
    case None
    have "datetime_text gd None =
            Inr (y @ ascii ''-'' @ format_02d mi @ ascii ''-'' @ format_02d di @ ascii ''T''
                 @ format_02d 12 @ ascii '':'' @ format_02d 0 @ ascii '':00+09:00'')"
      using g mi(1) di(1) py_int_zero2 py_int_twelve
      by (simp add: datetime_text_def Let_def and_then_def format_str_def)
    with None g dt(1) mi di show ?thesis by force
  next
    case (Some gt)
    from hour_minute_ok [OF Some] obtain h hour minute hi ki where
      hm: "py_int (gt 2) = Inr h" "hour_minute gt = Inr (hour, minute)"
          "py_int hour = Inr hi" "hi = (if gt 1 = Some kw_pm \<and> h < 12 then h + 12 else h)"
          "py_int minute = Inr ki" "0 \<le> hi" "hi < 100" "0 \<le> ki" "ki < 100" by blast
    have "datetime_text gd (Some gt) =
            Inr (y @ ascii ''-'' @ format_02d mi @ ascii ''-'' @ format_02d di @ ascii ''T''
                 @ format_02d hi @ ascii '':'' @ format_02d ki @ ascii '':00+09:00'')"
      using g mi(1) di(1) hm(2,3,5)
      by (simp add: datetime_text_def Let_def and_then_def format_str_def)
    with Some g dt(1) mi di hm show ?thesis by force
  qed
qed

lemma parse_date_none:
  "search date_rx msg = None \<Longrightarrow>
   parse_and_store_user_info e msg sess = Inr (after_datetime e msg sess)"
  by (simp add: parse_and_store_user_info_def after_datetime_def Let_def and_then_def)

lemma parse_date_some:
  "search date_rx msg = Some gd \<Longrightarrow> datetime_text gd (search time_rx msg) = Inr v \<Longrightarrow>
   parse_and_store_user_info e msg sess = Inr (after_datetime e msg (dict_set sess k_datetime v))"
  by (simp add: parse_and_store_user_info_def after_datetime_def Let_def and_then_def)

lemma parse_total:
  "\<exists>d. parse_and_store_user_info e msg sess = Inr (after_datetime e msg d) \<and>
       (case search date_rx msg of
          None \<Rightarrow> d = sess
        | Some gd \<Rightarrow> \<exists>v. datetime_text gd (search time_rx msg) = Inr v \<and>
                         d = dict_set sess k_datetime v)"
proof (cases "search date_rx msg")
  case None
  then show ?thesis by (simp add: parse_date_none)
next
  case (Some gd)
  from datetime_text_ok [OF Some, of msg] obtain v where
    "datetime_text gd (search time_rx msg) = Inr v" by blast
  with Some show ?thesis by (simp add: parse_date_some)
qed

lemma after_datetime_get:
  "dict_get (after_datetime e msg d) k =
     (if k = k_gochradatetime then Some (resolve_gochra_datetime e msg)
      else if k = k_birthdaytype then
        Some (if contains msg v_lunar then v_lunar else dict_get_default d k_birthdaytype v_solar)
      else if k = k_usergender \<and> truthy_str (extract_gender e msg) then extract_gender e msg
      else if k = k_coordinates \<and> truthy_str (extract_place msg) then
        map_option (get_coordinates e) (extract_place msg)
      else if k = k_place \<and> truthy_str (extract_place msg) then extract_place msg
      else dict_get d k)"
  by (simp add: after_datetime_def Let_def dict_get_set dict_get_default_def map_of_dict_set
        truthy_str_def format_str_def key_defs split: option.splits)

lemma dict_has_get: "dict_has d k = (dict_get d k \<noteq> None)"
  by (simp add: dict_has_def dict_get_def)

lemma list4:
  assumes "length y = 4"
  shows "\<exists>a b c d. y = [a, b, c, d]"
proof -
  from assms obtain a y1 where 1: "y = a # y1" "length y1 = 3" by (cases y) auto
  then obtain b y2 where 2: "y1 = b # y2" "length y2 = 2" by (cases y1) auto
  then obtain c y3 where 3: "y2 = c # y3" "length y3 = 1" by (cases y2) auto
  then obtain d where "y3 = [d]" by (cases y3) auto
  with 1 2 3 show ?thesis by blast
qed

lemma format_02d_digits:
  assumes "0 \<le> n" "n < 100"
  shows "\<exists>a b. format_02d n = [a, b] \<and> ascii_digit a \<and> ascii_digit b"
proof -
  have "nat n div 10 < 10" "nat n mod 10 < 10" using assms by auto
  then have "ascii_digit (0x30 + nat n div 10)" "ascii_digit (0x30 + nat n mod 10)"
    by (simp_all add: ascii_digit_def)
  with format_02d_two [OF assms] show ?thesis by blast
qed

lemma committed_shape_text:
  assumes "digit_text 4 4 y" "0 \<le> mi" "mi < 100" "0 \<le> di" "di < 100"
    "0 \<le> hi" "hi < 100" "0 \<le> ki" "ki < 100"
  shows "committed_shape
           (y @ ascii ''-'' @ format_02d mi @ ascii ''-'' @ format_02d di @ ascii ''T''
            @ format_02d hi @ ascii '':'' @ format_02d ki @ ascii '':00+09:00'')"
    and "slice 11 2
           (y @ ascii ''-'' @ format_02d mi @ ascii ''-'' @ format_02d di @ ascii ''T''
            @ format_02d hi @ ascii '':'' @ format_02d ki @ ascii '':00+09:00'')
         = format_02d hi"
proof -
  from assms(1) have "length y = 4" and yd: "list_all py_isdecimal y"
    by (auto simp: digit_text_def)
  then obtain y1 y2 y3 y4 where y: "y = [y1, y2, y3, y4]" using list4 by blast
  from format_02d_digits [OF assms(2,3)] obtain m1 m2 where
    m: "format_02d mi = [m1, m2]" "ascii_digit m1" "ascii_digit m2" by blast
  from format_02d_digits [OF assms(4,5)] obtain d1 d2 where
    d: "format_02d di = [d1, d2]" "ascii_digit d1" "ascii_digit d2" by blast
  from format_02d_digits [OF assms(6,7)] obtain h1 h2 where
    h: "format_02d hi = [h1, h2]" "ascii_digit h1" "ascii_digit h2" by blast
  from format_02d_digits [OF assms(8,9)] obtain k1 k2 where
    k: "format_02d ki = [k1, k2]" "ascii_digit k1" "ascii_digit k2" by blast
  show "committed_shape
           (y @ ascii ''-'' @ format_02d mi @ ascii ''-'' @ format_02d di @ ascii ''T''
            @ format_02d hi @ ascii '':'' @ format_02d ki @ ascii '':00+09:00'')"
    using yd m d h k unfolding y by (simp add: committed_shape_def slice_def ascii_def)
  show "slice 11 2
           (y @ ascii ''-'' @ format_02d mi @ ascii ''-'' @ format_02d di @ ascii ''T''
            @ format_02d hi @ ascii '':'' @ format_02d ki @ ascii '':00+09:00'')
         = format_02d hi"
    using m d h k unfolding y by (simp add: slice_def ascii_def)
qed

lemma handle_user_info:
  "user_info (fst (handle e c st)) = user_info st \<or>
   parse_and_store_user_info e (py_strip c) (user_info st) = Inr (user_info (fst (handle e c st)))"
  by (simp add: handle_def Let_def split: sum.splits)

lemma run_turns_invariant:
  assumes "P (user_info st)"
    and "\<And>e m d r. P d \<Longrightarrow> parse_and_store_user_info e m d = Inr r \<Longrightarrow> P r"
  shows "P (user_info (run_turns ts st))"
  using assms(1)
proof (induction ts arbitrary: st)
  case Nil
  then show ?case by simp
next
  case (Cons t ts)
  obtain e c where t: "t = (e, c)" by (cases t)
  have "P (user_info (fst (handle e c st)))"
    using handle_user_info [of e c st] Cons.prems assms(2) by metis
  then show ?case unfolding t by (simp add: Cons.IH)
qed

subsection \<open>The field merge\<close>

text \<open>
  Claim C6. For every prior session and message the merge raises nothing, and in its
  result: \<^verbatim>\<open>datetime\<close> is unchanged when no date matched (whether or not a time matched);
  \<^verbatim>\<open>place\<close> and \<^verbatim>\<open>coordinates\<close> are unchanged when no place was found; \<^verbatim>\<open>usergender\<close> is
  unchanged when no gender word was found; \<^verbatim>\<open>birthdaytype\<close> and \<^verbatim>\<open>gochradatetime\<close> are
  assigned anew; every other key keeps its value; and every key of the prior session is
  still present.
\<close>

theorem merge_preserves_fields:
  "\<exists>r. parse_and_store_user_info e msg sess = Inr r \<and>
     (search date_rx msg = None \<longrightarrow> dict_get r k_datetime = dict_get sess k_datetime) \<and>
     (\<not> truthy_str (extract_place msg) \<longrightarrow>
        dict_get r k_place = dict_get sess k_place \<and>
        dict_get r k_coordinates = dict_get sess k_coordinates) \<and>
     (\<not> truthy_str (extract_gender e msg) \<longrightarrow>
        dict_get r k_usergender = dict_get sess k_usergender) \<and>
     dict_get r k_birthdaytype =
       Some (if contains msg v_lunar then v_lunar
             else dict_get_default sess k_birthdaytype v_solar) \<and>
     dict_get r k_gochradatetime = Some (resolve_gochra_datetime e msg) \<and>
     (\<forall>k. k \<notin> set [k_datetime, k_place, k_coordinates, k_usergender, k_birthdaytype,
                     k_gochradatetime] \<longrightarrow> dict_get r k = dict_get sess k) \<and>
     (\<forall>k. dict_has sess k \<longrightarrow> dict_has r k)"
proof -
  from parse_total [of e msg sess] obtain d where
    r: "parse_and_store_user_info e msg sess = Inr (after_datetime e msg d)" and
    d: "case search date_rx msg of
          None \<Rightarrow> d = sess
        | Some gd \<Rightarrow> \<exists>v. datetime_text gd (search time_rx msg) = Inr v \<and>
                         d = dict_set sess k_datetime v" by blast
  have other: "\<And>k. k \<noteq> k_datetime \<Longrightarrow> dict_get d k = dict_get sess k"
    using d by (auto simp: dict_get_set split: option.splits)
  have nodate: "search date_rx msg = None \<Longrightarrow> d = sess"
    using d by simp
  have has: "\<And>k. dict_has sess k \<Longrightarrow> dict_has d k"
    using d by (auto simp: dict_has_set split: option.splits)
  have bd: "dict_get_default d k_birthdaytype v_solar = dict_get_default sess k_birthdaytype v_solar"
    using other [of k_birthdaytype]
    by (simp add: dict_get_default_def dict_get_def key_defs)
  have 1: "search date_rx msg = None \<longrightarrow>
             dict_get (after_datetime e msg d) k_datetime = dict_get sess k_datetime"
    using nodate by (simp add: after_datetime_get key_defs)
  have 2: "\<not> truthy_str (extract_place msg) \<longrightarrow>
             dict_get (after_datetime e msg d) k_place = dict_get sess k_place \<and>
             dict_get (after_datetime e msg d) k_coordinates = dict_get sess k_coordinates"
    using other [of k_place] other [of k_coordinates]
    by (simp add: after_datetime_get key_defs)
  have 3: "\<not> truthy_str (extract_gender e msg) \<longrightarrow>
             dict_get (after_datetime e msg d) k_usergender = dict_get sess k_usergender"
    using other [of k_usergender] by (simp add: after_datetime_get key_defs)
  have 4: "dict_get (after_datetime e msg d) k_birthdaytype =
             Some (if contains msg v_lunar then v_lunar
                   else dict_get_default sess k_birthdaytype v_solar)"
    using bd by (simp add: after_datetime_get key_defs)
  have 5: "dict_get (after_datetime e msg d) k_gochradatetime =
             Some (resolve_gochra_datetime e msg)"
    by (simp add: after_datetime_get)
  have 6: "\<forall>k. k \<notin> set [k_datetime, k_place, k_coordinates, k_usergender, k_birthdaytype,
                     k_gochradatetime] \<longrightarrow> dict_get (after_datetime e msg d) k = dict_get sess k"
    using other by (simp add: after_datetime_get)
  have 7: "\<forall>k. dict_has sess k \<longrightarrow> dict_has (after_datetime e msg d) k"
  proof (intro allI impI)
    fix k assume "dict_has sess k"
    then have "dict_get d k \<noteq> None" using has by (simp add: dict_has_get)
    then show "dict_has (after_datetime e msg d) k"
      by (auto simp: dict_has_get after_datetime_get truthy_str_def split: option.splits)
  qed
  from r 1 2 3 4 5 6 7 show ?thesis
    by (rule_tac x = "after_datetime e msg d" in exI) (intro conjI; assumption)
qed

text \<open>
  A run of C6: a time without a date (U+C624 U+D6C4, a space, 3, U+C2DC), merged into a
  session that holds all four required fields, leaves the four as they were.
\<close>

theorem merge_preserves_fields_witness:
  "search date_rx [0xC624, 0xD6C4, 0x20, 0x33, 0xC2DC] = None \<and>
   \<not> truthy_str (extract_place [0xC624, 0xD6C4, 0x20, 0x33, 0xC2DC]) \<and>
   \<not> truthy_str (extract_gender test_env [0xC624, 0xD6C4, 0x20, 0x33, 0xC2DC]) \<and>
   (\<exists>r. parse_and_store_user_info test_env [0xC624, 0xD6C4, 0x20, 0x33, 0xC2DC]
          [(k_datetime, ascii ''1976-04-27T14:00:00+09:00''), (k_place, [0xC11C, 0xC6B8]),
           (k_coordinates, fallback_coordinates), (k_usergender, v_female)] = Inr r \<and>
        dict_get r k_datetime = Some (ascii ''1976-04-27T14:00:00+09:00'') \<and>
        dict_get r k_place = Some [0xC11C, 0xC6B8] \<and>
        dict_get r k_coordinates = Some fallback_coordinates \<and>
        dict_get r k_usergender = Some v_female \<and>
        dict_get r k_birthdaytype = Some v_solar)"
proof -
  have a: "search date_rx [0xC624, 0xD6C4, 0x20, 0x33, 0xC2DC] = None"
    by (simp add: eval_defs)
  have b: "\<not> truthy_str (extract_place [0xC624, 0xD6C4, 0x20, 0x33, 0xC2DC])"
    by (simp add: eval_defs run_defs)
  have c: "\<not> truthy_str (extract_gender test_env [0xC624, 0xD6C4, 0x20, 0x33, 0xC2DC])"
    by (simp add: eval_defs run_defs)
  have d: "\<not> contains [0xC624, 0xD6C4, 0x20, 0x33, 0xC2DC] v_lunar"
    by (simp add: eval_defs run_defs)
  from merge_preserves_fields
         [of test_env "[0xC624, 0xD6C4, 0x20, 0x33, 0xC2DC]"
             "[(k_datetime, ascii ''1976-04-27T14:00:00+09:00''), (k_place, [0xC11C, 0xC6B8]),
               (k_coordinates, fallback_coordinates), (k_usergender, v_female)]"]
  show ?thesis using a b c d
    by (auto simp: dict_get_def dict_get_default_def key_defs)
qed

text \<open>
  Claim C10. For every session whose \<^verbatim>\<open>birthdaytype\<close> is the lunar value and every message,
  the merge raises nothing and the merged session's \<^verbatim>\<open>birthdaytype\<close> is still the lunar
  value.
\<close>

theorem lunar_stays:
  assumes "dict_get sess k_birthdaytype = Some v_lunar"
  shows "\<exists>r. parse_and_store_user_info e msg sess = Inr r \<and>
             dict_get r k_birthdaytype = Some v_lunar"
proof -
  from parse_total [of e msg sess] obtain d where
    r: "parse_and_store_user_info e msg sess = Inr (after_datetime e msg d)" and
    d: "case search date_rx msg of
          None \<Rightarrow> d = sess
        | Some gd \<Rightarrow> \<exists>v. datetime_text gd (search time_rx msg) = Inr v \<and>
                         d = dict_set sess k_datetime v" by blast
  have "dict_get d k_birthdaytype = Some v_lunar"
    using d assms by (auto simp: dict_get_set key_defs split: option.splits)
  then have "dict_get_default d k_birthdaytype v_solar = v_lunar"
    by (simp add: dict_get_default_def dict_get_def)
  then have "dict_get (after_datetime e msg d) k_birthdaytype = Some v_lunar"
    by (simp add: after_datetime_get key_defs)
  with r show ?thesis by simp
qed

text \<open>A run of C10: the message that says solar (U+C591 U+B825) does not revert the field.\<close>

theorem lunar_stays_witness:
  "dict_get [(k_birthdaytype, v_lunar)] k_birthdaytype = Some v_lunar \<and>
   (\<exists>r. parse_and_store_user_info test_env [0xC591, 0xB825] [(k_birthdaytype, v_lunar)] = Inr r \<and>
        dict_get r k_birthdaytype = Some v_lunar)"
  using lunar_stays [of "[(k_birthdaytype, v_lunar)]" test_env "[0xC591, 0xB825]"]
  by (simp add: dict_get_def)

subsection \<open>Place and coordinates\<close>

lemma after_datetime_place_coordinates:
  "(dict_has d k_place \<longleftrightarrow> dict_has d k_coordinates) \<Longrightarrow>
   (dict_has (after_datetime e msg d) k_place \<longleftrightarrow>
    dict_has (after_datetime e msg d) k_coordinates)"
  by (auto simp: dict_has_get after_datetime_get truthy_str_def key_defs split: option.splits)

lemma parse_place_coordinates:
  assumes "dict_has d k_place \<longleftrightarrow> dict_has d k_coordinates"
    and "parse_and_store_user_info e m d = Inr r"
  shows "dict_has r k_place \<longleftrightarrow> dict_has r k_coordinates"
proof -
  from parse_total [of e m d] assms(2) obtain d' where
    r: "r = after_datetime e m d'" and
    d': "case search date_rx m of
          None \<Rightarrow> d' = d
        | Some gd \<Rightarrow> \<exists>v. datetime_text gd (search time_rx m) = Inr v \<and>
                         d' = dict_set d k_datetime v" by auto
  have "dict_has d' k_place \<longleftrightarrow> dict_has d' k_coordinates"
    using d' assms(1) by (auto simp: dict_has_set key_defs split: option.splits)
  then show ?thesis unfolding r by (rule after_datetime_place_coordinates)
qed

text \<open>
  Claim C9. In the session that any sequence of turns reaches from \<^verbatim>\<open>start_chat\<close>, the key
  \<^verbatim>\<open>place\<close> is present if and only if the key \<^verbatim>\<open>coordinates\<close> is; hence whenever the
  validator lists the coordinates prompt it lists the place prompt too.
\<close>

theorem place_with_coordinates:
  "(dict_has (user_info (conversation ts)) k_place \<longleftrightarrow>
    dict_has (user_info (conversation ts)) k_coordinates) \<and>
   (\<forall>qs. check_missing_fields (user_info (conversation ts)) = Inr qs \<longrightarrow>
         q_coordinates \<in> set qs \<longrightarrow> q_place \<in> set qs)"
proof -
  have inv: "dict_has (user_info (conversation ts)) k_place \<longleftrightarrow>
             dict_has (user_info (conversation ts)) k_coordinates"
    unfolding conversation_def
  proof (rule run_turns_invariant
      [where P = "\<lambda>d. dict_has d k_place \<longleftrightarrow> dict_has d k_coordinates"])
    show "dict_has (user_info (fst start_chat)) k_place \<longleftrightarrow>
          dict_has (user_info (fst start_chat)) k_coordinates"
      by (simp add: start_chat_def dict_has_def)
  next
    fix e m d r
    assume "dict_has d k_place \<longleftrightarrow> dict_has d k_coordinates"
      and "parse_and_store_user_info e m d = Inr r"
    then show "dict_has r k_place \<longleftrightarrow> dict_has r k_coordinates"
      by (rule parse_place_coordinates)
  qed
  have q: "q_coordinates \<noteq> q_datetime" "q_coordinates \<noteq> q_place" "q_coordinates \<noteq> q_usergender"
    by (simp_all add: q_coordinates_def q_datetime_def q_place_def q_usergender_def)
  have "\<forall>qs. check_missing_fields (user_info (conversation ts)) = Inr qs \<longrightarrow>
         q_coordinates \<in> set qs \<longrightarrow> q_place \<in> set qs"
    using inv q by (auto simp: check_missing_fields_eq split: if_splits)
  with inv show ?thesis by blast
qed

text \<open>
  A run of C9: after one turn that asks for today's fortune and names no place, the
  validator lists all four prompts, the coordinates prompt after the place prompt.
\<close>

theorem place_with_coordinates_witness:
  "check_missing_fields (user_info (conversation [(test_env, [0xC624, 0xB298, 0x20, 0xC6B4, 0xC138, 0x20, 0xBD10, 0xC918])])) =
     Inr [q_datetime, q_place, q_coordinates, q_usergender] \<and>
   q_coordinates \<in> set [q_datetime, q_place, q_coordinates, q_usergender] \<and>
   q_place \<in> set [q_datetime, q_place, q_coordinates, q_usergender]"
proof -
  have "user_info (conversation [(test_env, [0xC624, 0xB298, 0x20, 0xC6B4, 0xC138, 0x20, 0xBD10, 0xC918])]) =
          [(k_birthdaytype, v_solar), (k_gochradatetime, ascii ''2025-01-06T09:30:00+09:00'')]"
    by (simp add: eval_defs run_defs key_defs)
  then have "check_missing_fields (user_info (conversation [(test_env, [0xC624, 0xB298, 0x20, 0xC6B4, 0xC138, 0x20, 0xBD10, 0xC918])])) =
     Inr [q_datetime, q_place, q_coordinates, q_usergender]"
    by (simp add: check_missing_fields_eq dict_has_def key_defs)
  with place_with_coordinates [of "[(test_env, [0xC624, 0xB298, 0x20, 0xC6B4, 0xC138, 0x20, 0xBD10, 0xC918])]"] show ?thesis by simp
qed

subsection \<open>The committed date and time\<close>

lemma parse_datetime:
  assumes "search date_rx msg = Some gd"
  shows "\<exists>y mi di hi ki r.
           gd 1 = Some y \<and> digit_text 4 4 y \<and>
           py_int (gd 2) = Inr mi \<and> 0 \<le> mi \<and> mi < 100 \<and>
           py_int (gd 3) = Inr di \<and> 0 \<le> di \<and> di < 100 \<and>
           0 \<le> hi \<and> hi < 100 \<and> 0 \<le> ki \<and> ki < 100 \<and>
           (case search time_rx msg of
              None \<Rightarrow> hi = 12 \<and> ki = 0
            | Some gt \<Rightarrow>
                \<exists>h. py_int (gt 2) = Inr h \<and>
                    hi = (if gt 1 = Some kw_pm \<and> h < 12 then h + 12 else h)) \<and>
           parse_and_store_user_info e msg sess = Inr r \<and>
           dict_get r k_datetime =
             Some (y @ ascii ''-'' @ format_02d mi @ ascii ''-'' @ format_02d di @ ascii ''T''
                   @ format_02d hi @ ascii '':'' @ format_02d ki @ ascii '':00+09:00'')"
proof -
  from datetime_text_ok [OF assms, of msg] obtain y mi di hi ki where
    f: "gd 1 = Some y" "digit_text 4 4 y"
       "py_int (gd 2) = Inr mi" "0 \<le> mi" "mi < 100"
       "py_int (gd 3) = Inr di" "0 \<le> di" "di < 100"
       "0 \<le> hi" "hi < 100" "0 \<le> ki" "ki < 100"
       "case search time_rx msg of
              None \<Rightarrow> hi = 12 \<and> ki = 0
            | Some gt \<Rightarrow>
                \<exists>h. py_int (gt 2) = Inr h \<and>
                    hi = (if gt 1 = Some kw_pm \<and> h < 12 then h + 12 else h)"
    and t: "datetime_text gd (search time_rx msg) =
             Inr (y @ ascii ''-'' @ format_02d mi @ ascii ''-'' @ format_02d di @ ascii ''T''
                  @ format_02d hi @ ascii '':'' @ format_02d ki @ ascii '':00+09:00'')"
    by blast
  let ?v = "y @ ascii ''-'' @ format_02d mi @ ascii ''-'' @ format_02d di @ ascii ''T''
                  @ format_02d hi @ ascii '':'' @ format_02d ki @ ascii '':00+09:00''"
  let ?r = "after_datetime e msg (dict_set sess k_datetime ?v)"
  have r: "parse_and_store_user_info e msg sess = Inr ?r"
    using assms t by (rule parse_date_some)
  have g: "dict_get ?r k_datetime = Some ?v"
    by (simp add: after_datetime_get dict_get_set key_defs)
  from f r g show ?thesis
    by (rule_tac x = y in exI, rule_tac x = mi in exI, rule_tac x = di in exI,
        rule_tac x = hi in exI, rule_tac x = ki in exI, rule_tac x = ?r in exI)
       (intro conjI; assumption)
qed

lemma parse_commits_shape:
  "\<exists>r. parse_and_store_user_info e msg sess = Inr r \<and>
       (case search date_rx msg of
          None \<Rightarrow> dict_get r k_datetime = dict_get sess k_datetime
        | Some gd \<Rightarrow> \<exists>v. dict_get r k_datetime = Some v \<and> committed_shape v)"
proof (cases "search date_rx msg")
  case None
  then show ?thesis by (simp add: parse_date_none after_datetime_get key_defs)
next
  case (Some gd)
  from parse_datetime [OF Some, of e sess] obtain y mi di hi ki r where
    f: "digit_text 4 4 y" "0 \<le> mi" "mi < 100" "0 \<le> di" "di < 100"
       "0 \<le> hi" "hi < 100" "0 \<le> ki" "ki < 100"
       "parse_and_store_user_info e msg sess = Inr r"
       "dict_get r k_datetime =
             Some (y @ ascii ''-'' @ format_02d mi @ ascii ''-'' @ format_02d di @ ascii ''T''
                   @ format_02d hi @ ascii '':'' @ format_02d ki @ ascii '':00+09:00'')"
    by blast
  from committed_shape_text(1) [OF f(1-9)] f(10,11) Some show ?thesis by simp
qed

text \<open>
  Claim C2, as amended. For every message and prior session the merge raises nothing; when
  a date matched, the value it stores under \<^verbatim>\<open>datetime\<close> is the four matched decimal digits
  of the year, then month, day, hour and minute as two ASCII digits each, with the
  separators \<^verbatim>\<open>-\<close>, \<^verbatim>\<open>-\<close>, \<^verbatim>\<open>T\<close>, \<^verbatim>\<open>:\<close>, seconds \<^verbatim>\<open>:00\<close> and the offset \<^verbatim>\<open>+09:00\<close>; when no date
  matched, \<^verbatim>\<open>datetime\<close> is left as it was. Hence in every session reachable from
  \<^verbatim>\<open>start_chat\<close> the field has this shape once set. Month, day, hour and minute are not
  checked against any range.
\<close>

theorem datetime_committed_shape:
  "(\<exists>r. parse_and_store_user_info e msg sess = Inr r \<and>
       (case search date_rx msg of
          None \<Rightarrow> dict_get r k_datetime = dict_get sess k_datetime
        | Some gd \<Rightarrow> \<exists>v. dict_get r k_datetime = Some v \<and> committed_shape v)) \<and>
   (\<forall>v. dict_get (user_info (conversation ts)) k_datetime = Some v \<longrightarrow> committed_shape v)"
proof
  show "\<exists>r. parse_and_store_user_info e msg sess = Inr r \<and>
       (case search date_rx msg of
          None \<Rightarrow> dict_get r k_datetime = dict_get sess k_datetime
        | Some gd \<Rightarrow> \<exists>v. dict_get r k_datetime = Some v \<and> committed_shape v)"
    by (rule parse_commits_shape)
  show "\<forall>v. dict_get (user_info (conversation ts)) k_datetime = Some v \<longrightarrow> committed_shape v"
    unfolding conversation_def
  proof (rule run_turns_invariant
      [where P = "\<lambda>d. \<forall>v. dict_get d k_datetime = Some v \<longrightarrow> committed_shape v"])
    show "\<forall>v. dict_get (user_info (fst start_chat)) k_datetime = Some v \<longrightarrow> committed_shape v"
      by (simp add: start_chat_def dict_get_def)
  next
    fix e' m d r
    assume P: "\<forall>v. dict_get d k_datetime = Some v \<longrightarrow> committed_shape v"
      and r: "parse_and_store_user_info e' m d = Inr r"
    from parse_commits_shape [of e' m d] r
    have "case search date_rx m of
            None \<Rightarrow> dict_get r k_datetime = dict_get d k_datetime
          | Some gd \<Rightarrow> \<exists>v. dict_get r k_datetime = Some v \<and> committed_shape v" by auto
    with P show "\<forall>v. dict_get r k_datetime = Some v \<longrightarrow> committed_shape v"
      by (auto split: option.splits)
  qed
qed

text \<open>
  A run of the amended C2: one turn with the date 2024, month 13, day 45 and hour 99 in an
  astrology question stores a value of the committed shape.
\<close>

theorem datetime_committed_shape_witness:
  "dict_get (user_info (conversation [(test_env, [0x32, 0x30, 0x32, 0x34, 0xB144, 0x20, 0x31, 0x33, 0xC6D4, 0x20, 0x34, 0x35, 0xC77C, 0x20, 0x39, 0x39, 0xC2DC, 0x20, 0xC6B4, 0xC138])])) k_datetime =
     Some (ascii ''2024-13-45T99:00:00+09:00'') \<and>
   committed_shape (ascii ''2024-13-45T99:00:00+09:00'')"
proof -
  have "dict_get (user_info (conversation [(test_env, [0x32, 0x30, 0x32, 0x34, 0xB144, 0x20, 0x31, 0x33, 0xC6D4, 0x20, 0x34, 0x35, 0xC77C, 0x20, 0x39, 0x39, 0xC2DC, 0x20, 0xC6B4, 0xC138])])) k_datetime =
     Some (ascii ''2024-13-45T99:00:00+09:00'')"
    by (simp add: eval_defs run_defs key_defs)
  with datetime_committed_shape [of test_env "[]" "[]" "[(test_env, [0x32, 0x30, 0x32, 0x34, 0xB144, 0x20, 0x31, 0x33, 0xC6D4, 0x20, 0x34, 0x35, 0xC77C, 0x20, 0x39, 0x39, 0xC2DC, 0x20, 0xC6B4, 0xC138])]"]
  show ?thesis by blast
qed

text \<open>
  C2 as stated fails: the message giving year 2024, month 13, day 45 commits
  \<^verbatim>\<open>2024-13-45T12:00:00+09:00\<close>, which is no calendar date.
\<close>

theorem datetime_not_validated:
  "parse_and_store_user_info test_env [0x32, 0x30, 0x32, 0x34, 0xB144, 0x20, 0x31, 0x33, 0xC6D4, 0x20, 0x34, 0x35, 0xC77C] [] =
     Inr [(k_datetime, ascii ''2024-13-45T12:00:00+09:00''), (k_birthdaytype, v_solar),
          (k_gochradatetime, ascii ''2025-01-06T09:30:00+09:00'')] \<and>
   \<not> spec_datetime (ascii ''2024-13-45T12:00:00+09:00'')"
  by (simp add: eval_defs run_defs key_defs spec_datetime_def slice_def ascii_value_def
        ascii_digit_def days_in_month_def)

text \<open>
  Claim C3. For every message in which both the date pattern and the time pattern match,
  with \<open>h\<close> the number the hour group of the time match denotes: the merge raises nothing
  and the hour of the committed value (its characters 11 and 12) is \<open>h + 12\<close> in two digits
  when the marker group holds the PM marker and \<open>h < 12\<close>, and \<open>h\<close> in two digits when the
  marker group holds the AM marker, or is absent, or holds the PM marker with \<open>12 \<le> h\<close>.
\<close>

theorem committed_hour:
  assumes "search date_rx msg = Some gd" "search time_rx msg = Some gt"
  shows "\<exists>h r v.
           py_int (gt 2) = Inr h \<and>
           parse_and_store_user_info e msg sess = Inr r \<and> dict_get r k_datetime = Some v \<and>
           (gt 1 = Some kw_pm \<and> h < 12 \<longrightarrow> slice 11 2 v = format_02d (h + 12)) \<and>
           (gt 1 = Some kw_am \<or> gt 1 = None \<or> (gt 1 = Some kw_pm \<and> 12 \<le> h) \<longrightarrow>
              slice 11 2 v = format_02d h)"
proof -
  from parse_datetime [OF assms(1), of e sess] assms(2) obtain y mi di hi ki r h where
    f: "digit_text 4 4 y" "0 \<le> mi" "mi < 100" "0 \<le> di" "di < 100"
       "0 \<le> hi" "hi < 100" "0 \<le> ki" "ki < 100"
    and h: "py_int (gt 2) = Inr h" "hi = (if gt 1 = Some kw_pm \<and> h < 12 then h + 12 else h)"
    and r: "parse_and_store_user_info e msg sess = Inr r"
       "dict_get r k_datetime =
             Some (y @ ascii ''-'' @ format_02d mi @ ascii ''-'' @ format_02d di @ ascii ''T''
                   @ format_02d hi @ ascii '':'' @ format_02d ki @ ascii '':00+09:00'')"
    by auto
  let ?v = "y @ ascii ''-'' @ format_02d mi @ ascii ''-'' @ format_02d di @ ascii ''T''
                   @ format_02d hi @ ascii '':'' @ format_02d ki @ ascii '':00+09:00''"
  have s: "slice 11 2 ?v = format_02d hi"
    by (rule committed_shape_text(2) [OF f])
  have ne: "kw_am \<noteq> kw_pm" by (simp add: kw_am_def kw_pm_def)
  have 1: "gt 1 = Some kw_pm \<and> h < 12 \<longrightarrow> slice 11 2 ?v = format_02d (h + 12)"
  proof
    assume "gt 1 = Some kw_pm \<and> h < 12"
    with h(2) have "hi = h + 12" by simp
    with s show "slice 11 2 ?v = format_02d (h + 12)" by simp
  qed
  have 2: "gt 1 = Some kw_am \<or> gt 1 = None \<or> (gt 1 = Some kw_pm \<and> 12 \<le> h) \<longrightarrow>
              slice 11 2 ?v = format_02d h"
  proof
    assume "gt 1 = Some kw_am \<or> gt 1 = None \<or> (gt 1 = Some kw_pm \<and> 12 \<le> h)"
    with h(2) ne have "hi = h" by auto
    with s show "slice 11 2 ?v = format_02d h" by simp
  qed
  from h(1) r 1 2 show ?thesis
    by (rule_tac x = h in exI, rule_tac x = r in exI, rule_tac x = ?v in exI)
       (intro conjI; assumption)
qed

text \<open>
  Two runs of C3, on 1 January 2024: PM 12 commits hour 12, and PM 3 with 5 minutes
  commits hour 15.
\<close>

theorem committed_hour_witness:
  "search date_rx [0x32, 0x30, 0x32, 0x34, 0xB144, 0x20, 0x31, 0xC6D4, 0x20, 0x31, 0xC77C, 0x20, 0xC624, 0xD6C4, 0x20, 0x31, 0x32, 0xC2DC] = Some [1 \<mapsto> ascii ''2024'', 2 \<mapsto> ascii ''1'', 3 \<mapsto> ascii ''1''] \<and>
   search time_rx [0x32, 0x30, 0x32, 0x34, 0xB144, 0x20, 0x31, 0xC6D4, 0x20, 0x31, 0xC77C, 0x20, 0xC624, 0xD6C4, 0x20, 0x31, 0x32, 0xC2DC] = Some [1 \<mapsto> kw_pm, 2 \<mapsto> ascii ''12''] \<and>
   (\<exists>r v. parse_and_store_user_info test_env [0x32, 0x30, 0x32, 0x34, 0xB144, 0x20, 0x31, 0xC6D4, 0x20, 0x31, 0xC77C, 0x20, 0xC624, 0xD6C4, 0x20, 0x31, 0x32, 0xC2DC] [] = Inr r \<and>
          dict_get r k_datetime = Some v \<and> slice 11 2 v = ascii ''12'') \<and>
   search date_rx [0x32, 0x30, 0x32, 0x34, 0xB144, 0x20, 0x31, 0xC6D4, 0x20, 0x31, 0xC77C, 0x20, 0xC624, 0xD6C4, 0x20, 0x33, 0xC2DC, 0x20, 0x35, 0xBD84] = Some [1 \<mapsto> ascii ''2024'', 2 \<mapsto> ascii ''1'', 3 \<mapsto> ascii ''1''] \<and>
   search time_rx [0x32, 0x30, 0x32, 0x34, 0xB144, 0x20, 0x31, 0xC6D4, 0x20, 0x31, 0xC77C, 0x20, 0xC624, 0xD6C4, 0x20, 0x33, 0xC2DC, 0x20, 0x35, 0xBD84] = Some [1 \<mapsto> kw_pm, 2 \<mapsto> ascii ''3'', 3 \<mapsto> ascii ''5''] \<and>
   (\<exists>r v. parse_and_store_user_info test_env [0x32, 0x30, 0x32, 0x34, 0xB144, 0x20, 0x31, 0xC6D4, 0x20, 0x31, 0xC77C, 0x20, 0xC624, 0xD6C4, 0x20, 0x33, 0xC2DC, 0x20, 0x35, 0xBD84] [] = Inr r \<and>
          dict_get r k_datetime = Some v \<and> slice 11 2 v = ascii ''15'')"
proof -
  have a: "search date_rx [0x32, 0x30, 0x32, 0x34, 0xB144, 0x20, 0x31, 0xC6D4, 0x20, 0x31, 0xC77C, 0x20, 0xC624, 0xD6C4, 0x20, 0x31, 0x32, 0xC2DC] = Some [1 \<mapsto> ascii ''2024'', 2 \<mapsto> ascii ''1'', 3 \<mapsto> ascii ''1'']"
    by (simp add: eval_defs)
  have b: "search time_rx [0x32, 0x30, 0x32, 0x34, 0xB144, 0x20, 0x31, 0xC6D4, 0x20, 0x31, 0xC77C, 0x20, 0xC624, 0xD6C4, 0x20, 0x31, 0x32, 0xC2DC] = Some [1 \<mapsto> kw_pm, 2 \<mapsto> ascii ''12'']"
    by (simp add: eval_defs)
  have c: "search date_rx [0x32, 0x30, 0x32, 0x34, 0xB144, 0x20, 0x31, 0xC6D4, 0x20, 0x31, 0xC77C, 0x20, 0xC624, 0xD6C4, 0x20, 0x33, 0xC2DC, 0x20, 0x35, 0xBD84] = Some [1 \<mapsto> ascii ''2024'', 2 \<mapsto> ascii ''1'', 3 \<mapsto> ascii ''1'']"
    by (simp add: eval_defs)
  have d: "search time_rx [0x32, 0x30, 0x32, 0x34, 0xB144, 0x20, 0x31, 0xC6D4, 0x20, 0x31, 0xC77C, 0x20, 0xC624, 0xD6C4, 0x20, 0x33, 0xC2DC, 0x20, 0x35, 0xBD84] = Some [1 \<mapsto> kw_pm, 2 \<mapsto> ascii ''3'', 3 \<mapsto> ascii ''5'']"
    by (simp add: eval_defs)
  have i: "py_int (Some (ascii ''12'')) = Inr 12" "py_int (Some (ascii ''3'')) = Inr 3"
    by (simp_all add: eval_defs)
  have f: "format_02d 12 = ascii ''12''" "format_02d (3 + 12) = ascii ''15''"
    by (simp_all add: format_02d_two ascii_def)
  from committed_hour [OF a b, of test_env "[]"] i(1) f(1)
  have 1: "\<exists>r v. parse_and_store_user_info test_env [0x32, 0x30, 0x32, 0x34, 0xB144, 0x20, 0x31, 0xC6D4, 0x20, 0x31, 0xC77C, 0x20, 0xC624, 0xD6C4, 0x20, 0x31, 0x32, 0xC2DC] [] = Inr r \<and>
          dict_get r k_datetime = Some v \<and> slice 11 2 v = ascii ''12''"
    by auto
  from committed_hour [OF c d, of test_env "[]"] i(2) f(2)
  have 2: "\<exists>r v. parse_and_store_user_info test_env [0x32, 0x30, 0x32, 0x34, 0xB144, 0x20, 0x31, 0xC6D4, 0x20, 0x31, 0xC77C, 0x20, 0xC624, 0xD6C4, 0x20, 0x33, 0xC2DC, 0x20, 0x35, 0xBD84] [] = Inr r \<and>
          dict_get r k_datetime = Some v \<and> slice 11 2 v = ascii ''15''"
    by auto
  from a b c d 1 2 show ?thesis by blast
qed

subsection \<open>A date without a time\<close>

lemma ascii_digit_decimal: "ascii_digit c \<Longrightarrow> py_decimal c = Some (c - 0x30)"
  by (simp add: ascii_digit_def py_decimal_ascii)

lemma ascii_digit_isdecimal: "ascii_digit c \<Longrightarrow> py_isdecimal c"
  by (simp add: py_isdecimal_def ascii_digit_decimal)

lemma sep_not_decimal: "\<not> py_isdecimal 0xB144" "\<not> py_isdecimal 0x20" "\<not> py_isdecimal 0xC6D4"
  "\<not> py_isdecimal 0xC77C"
  by (simp_all add: py_isdecimal_def py_decimal_def decimal_runs_def)

lemma search_skip_prefix: "no_match_in r pre s \<Longrightarrow> search r (pre @ s) = search r s"
  by (induction pre) simp_all

lemma no_digit_no_date:
  "list_all (\<lambda>c. \<not> py_isdecimal c) pre \<Longrightarrow> no_match_in date_rx pre s"
  by (induction pre) (simp_all add: date_rx_def in_class_def)

lemma list1or2:
  assumes "length w = 1 \<or> length w = 2"
  obtains a where "w = [a]" | a b where "w = [a, b]"
proof -
  from assms show ?thesis
  proof
    assume "length w = 1"
    then obtain a where "w = [a]" by (cases w) auto
    then show ?thesis by (rule that(1))
  next
    assume "length w = 2"
    then obtain a w' where 1: "w = a # w'" "length w' = 1" by (cases w) auto
    then obtain b where "w' = [b]" by (cases w') auto
    with 1 show ?thesis using that(2) by simp
  qed
qed

lemma ascii_digit_props: "ascii_digit c \<Longrightarrow> py_isdecimal c \<and> 0x30 \<le> c \<and> c \<le> 0x39"
  by (simp add: ascii_digit_isdecimal) (simp add: ascii_digit_def)

lemma date_at_front:
  assumes "list_all ascii_digit Y" "length Y = 4"
    "list_all ascii_digit M" "length M = 1 \<or> length M = 2"
    "list_all ascii_digit D" "length D = 1 \<or> length D = 2"
  shows "search date_rx (Y @ [0xB144, 0x20] @ M @ [0xC6D4, 0x20] @ D @ [0xC77C] @ post)
         = Some [1 \<mapsto> Y, 2 \<mapsto> M, 3 \<mapsto> D]"
proof -
  from assms(2) obtain y1 y2 y3 y4 where Y: "Y = [y1, y2, y3, y4]" using list4 by blast
  have p: "list_all (\<lambda>c. py_isdecimal c \<and> 0x30 \<le> c \<and> c \<le> 0x39) (Y @ M @ D)"
    using assms(1,3,5) by (auto simp: list_all_iff ascii_digit_props)
  note nd = sep_not_decimal
  from assms(4) show ?thesis
  proof (cases rule: list1or2)
    case (1 m1)
    from assms(6) show ?thesis
    proof (cases rule: list1or2)
      case (1 d1)
      with p \<open>M = [m1]\<close> Y nd show ?thesis
        by (simp add: date_rx_def in_class_def)
    next
      case (2 d1 d2)
      with p \<open>M = [m1]\<close> Y nd show ?thesis
        by (simp add: date_rx_def in_class_def)
    qed
  next
    case (2 m1 m2)
    from assms(6) show ?thesis
    proof (cases rule: list1or2)
      case (1 d1)
      with p \<open>M = [m1, m2]\<close> Y nd show ?thesis
        by (simp add: date_rx_def in_class_def)
    next
      case (2 d1 d2)
      with p \<open>M = [m1, m2]\<close> Y nd show ?thesis
        by (simp add: date_rx_def in_class_def)
    qed
  qed
qed

lemma ascii_digit_offset:
  assumes "ascii_digit c"
  obtains x where "c = 0x30 + x" "x < 10"
proof -
  from assms have "0x30 \<le> c" "c \<le> 0x39" by (simp_all add: ascii_digit_def)
  then have "c = 0x30 + (c - 0x30)" "c - 0x30 < 10" by simp_all
  then show ?thesis by (rule that)
qed

lemma py_decimal_offset: "x < 10 \<Longrightarrow> py_decimal (0x30 + x) = Some x"
  by (simp add: py_decimal_ascii)

lemma format_pad2:
  assumes "list_all ascii_digit w" "length w = 1 \<or> length w = 2"
  shows "\<exists>n. py_int (Some w) = Inr n \<and> format_02d n = pad2 w"
  using assms(2)
proof (cases rule: list1or2)
  case (1 a)
  with assms(1) have "ascii_digit a" by simp
  then obtain x where x: "a = 0x30 + x" "x < 10" by (rule ascii_digit_offset)
  have "py_int (Some w) = Inr (int x)"
    using x by (simp add: 1 py_int_def py_decimal_offset)
  moreover have "format_02d (int x) = [0x30, a]"
    using x by (simp add: format_02d_two)
  ultimately show ?thesis by (simp add: 1 pad2_def)
next
  case (2 a b)
  with assms(1) have "ascii_digit a" "ascii_digit b" by simp_all
  then obtain x y where x: "a = 0x30 + x" "x < 10" and y: "b = 0x30 + y" "y < 10"
    by (metis ascii_digit_offset)
  have "py_int (Some w) = Inr (int (10 * x + y))"
    using x y by (simp add: 2 py_int_def py_decimal_offset)
  moreover have "nat (int (10 * x + y)) div 10 = x" "nat (int (10 * x + y)) mod 10 = y"
    using y(2) unfolding nat_int by simp_all
  then have "format_02d (int (10 * x + y)) = [a, b]"
    using x y format_02d_two [of "int (10 * x + y)"] by (simp del: of_nat_add of_nat_mult)
  ultimately show ?thesis by (simp add: 2 pad2_def)
qed

text \<open>
  Claim C4, as amended. Take a message that contains a year of four ASCII digits, the year
  syllable and a space, a month of one or two ASCII digits, the month syllable and a space,
  a day of one or two ASCII digits and the day syllable, such that the date pattern has no
  match that starts before this date (the extractor takes the leftmost match), and in
  which the time pattern matches nowhere. Then the merge raises nothing and stores under
  \<^verbatim>\<open>datetime\<close> exactly the year, \<^verbatim>\<open>-\<close>, the month padded to two digits, \<^verbatim>\<open>-\<close>, the day padded
  to two digits, and \<^verbatim>\<open>T12:00:00+09:00\<close>.
\<close>

theorem date_without_time_is_noon:
  assumes "no_match_in date_rx pre (Y @ [0xB144, 0x20] @ M @ [0xC6D4, 0x20] @ D @ [0xC77C] @ post)"
    and "list_all ascii_digit Y" "length Y = 4"
    and "list_all ascii_digit M" "length M = 1 \<or> length M = 2"
    and "list_all ascii_digit D" "length D = 1 \<or> length D = 2"
    and "search time_rx (pre @ Y @ [0xB144, 0x20] @ M @ [0xC6D4, 0x20] @ D @ [0xC77C] @ post) = None"
  shows "\<exists>r. parse_and_store_user_info e
                (pre @ Y @ [0xB144, 0x20] @ M @ [0xC6D4, 0x20] @ D @ [0xC77C] @ post) sess = Inr r \<and>
             dict_get r k_datetime =
               Some (Y @ ascii ''-'' @ pad2 M @ ascii ''-'' @ pad2 D @ ascii ''T12:00:00+09:00'')"
proof -
  let ?msg = "pre @ Y @ [0xB144, 0x20] @ M @ [0xC6D4, 0x20] @ D @ [0xC77C] @ post"
  let ?g = "[1 \<mapsto> Y, 2 \<mapsto> M, 3 \<mapsto> D]"
  have "search date_rx ?msg = search date_rx (Y @ [0xB144, 0x20] @ M @ [0xC6D4, 0x20] @ D @ [0xC77C] @ post)"
    using assms(1) by (rule search_skip_prefix)
  also have "\<dots> = Some ?g" using assms(2-7) by (rule date_at_front)
  finally have d: "search date_rx ?msg = Some ?g" .
  from parse_datetime [OF d, of e sess] assms(8) obtain mi di r where
    f: "py_int (Some M) = Inr mi" "py_int (Some D) = Inr di"
       "parse_and_store_user_info e ?msg sess = Inr r"
       "dict_get r k_datetime =
          Some (Y @ ascii ''-'' @ format_02d mi @ ascii ''-'' @ format_02d di @ ascii ''T''
                @ format_02d 12 @ ascii '':'' @ format_02d 0 @ ascii '':00+09:00'')"
    by auto
  from format_pad2 [OF assms(4,5)] f(1) have m: "format_02d mi = pad2 M" by auto
  from format_pad2 [OF assms(6,7)] f(2) have dd: "format_02d di = pad2 D" by auto
  have c: "format_02d 12 = ascii ''12''" "format_02d 0 = ascii ''00''"
    by (simp_all add: format_02d_two ascii_def)
  have "dict_get r k_datetime =
          Some (Y @ ascii ''-'' @ pad2 M @ ascii ''-'' @ pad2 D @ ascii ''T12:00:00+09:00'')"
    using f(4) by (simp add: m dd c) (simp add: ascii_def)
  with f(3) show ?thesis by blast
qed

text \<open>
  A run of the amended C4: the 27th day of month 4 of 1976, after a prefix that holds a
  digit (3, U+BC88, a space) and before the name of a city, is stored as
  \<^verbatim>\<open>1976-04-27T12:00:00+09:00\<close>.
\<close>

theorem date_without_time_is_noon_witness:
  "no_match_in date_rx [0x33, 0xBC88, 0x20]
     (ascii ''1976'' @ [0xB144, 0x20] @ ascii ''4'' @ [0xC6D4, 0x20] @ ascii ''27'' @ [0xC77C]
      @ [0x20, 0xC11C, 0xC6B8]) \<and>
   list_all ascii_digit (ascii ''1976'') \<and> list_all ascii_digit (ascii ''4'') \<and>
   list_all ascii_digit (ascii ''27'') \<and>
   search time_rx ([0x33, 0xBC88, 0x20] @ ascii ''1976'' @ [0xB144, 0x20] @ ascii ''4'' @ [0xC6D4, 0x20]
                   @ ascii ''27'' @ [0xC77C] @ [0x20, 0xC11C, 0xC6B8]) = None \<and>
   (\<exists>r. parse_and_store_user_info test_env
          ([0x33, 0xBC88, 0x20] @ ascii ''1976'' @ [0xB144, 0x20] @ ascii ''4'' @ [0xC6D4, 0x20]
           @ ascii ''27'' @ [0xC77C] @ [0x20, 0xC11C, 0xC6B8]) [] = Inr r \<and>
        dict_get r k_datetime = Some (ascii ''1976-04-27T12:00:00+09:00''))"
proof -
  have a: "no_match_in date_rx [0x33, 0xBC88, 0x20]
     (ascii ''1976'' @ [0xB144, 0x20] @ ascii ''4'' @ [0xC6D4, 0x20] @ ascii ''27'' @ [0xC77C]
      @ [0x20, 0xC11C, 0xC6B8])"
    by (simp add: eval_defs)
  have b: "list_all ascii_digit (ascii ''1976'')" "length (ascii ''1976'') = 4"
    "list_all ascii_digit (ascii ''4'')" "length (ascii ''4'') = 1 \<or> length (ascii ''4'') = 2"
    "list_all ascii_digit (ascii ''27'')" "length (ascii ''27'') = 1 \<or> length (ascii ''27'') = 2"
    by (simp_all add: ascii_def ascii_digit_def)
  have c: "search time_rx ([0x33, 0xBC88, 0x20] @ ascii ''1976'' @ [0xB144, 0x20] @ ascii ''4'' @ [0xC6D4, 0x20]
                   @ ascii ''27'' @ [0xC77C] @ [0x20, 0xC11C, 0xC6B8]) = None"
    by (simp add: eval_defs)
  have d: "ascii ''1976'' @ ascii ''-'' @ pad2 (ascii ''4'') @ ascii ''-'' @ pad2 (ascii ''27'')
           @ ascii ''T12:00:00+09:00'' = ascii ''1976-04-27T12:00:00+09:00''"
    by (simp add: ascii_def pad2_def)
  from date_without_time_is_noon [OF a b c, of test_env "[]"] a b(1,3,5) c
  show ?thesis unfolding d by blast
qed

text \<open>
  C4 as stated fails: a message that holds a membership number \<^verbatim>\<open>1234-5-6\<close> before the
  well-formed date of 2024, month 05, day 06, and no time, stores the number as the date:
  \<^verbatim>\<open>1234-05-06T12:00:00+09:00\<close>, not \<^verbatim>\<open>2024-05-06T12:00:00+09:00\<close>.
\<close>

theorem earlier_date_match_wins:
  "search time_rx
     ([0xD68C, 0xC6D0, 0xBC88, 0xD638, 0x20, 0x31, 0x32, 0x33, 0x34, 0x2D, 0x35, 0x2D, 0x36, 0x20, 0xC0DD, 0xC77C, 0x20] @ ascii ''2024'' @ [0xB144, 0x20] @ ascii ''05'' @ [0xC6D4, 0x20] @ ascii ''06''
      @ [0xC77C]) = None \<and>
   parse_and_store_user_info test_env
     ([0xD68C, 0xC6D0, 0xBC88, 0xD638, 0x20, 0x31, 0x32, 0x33, 0x34, 0x2D, 0x35, 0x2D, 0x36, 0x20, 0xC0DD, 0xC77C, 0x20] @ ascii ''2024'' @ [0xB144, 0x20] @ ascii ''05'' @ [0xC6D4, 0x20] @ ascii ''06''
      @ [0xC77C]) [] =
     Inr [(k_datetime, ascii ''1234-05-06T12:00:00+09:00''), (k_birthdaytype, v_solar),
          (k_gochradatetime, ascii ''2025-01-06T09:30:00+09:00'')] \<and>
   ascii ''1234-05-06T12:00:00+09:00'' \<noteq> ascii ''2024-05-06T12:00:00+09:00''"
  by (simp add: eval_defs run_defs key_defs)

subsection \<open>The geocoding adapter\<close>

lemma coordinates_of_Some:
  assumes "coordinates_of e data = Inr (Some t)"
  shows "\<exists>kvs rest lat lon. data = JArr (JObj kvs # rest) \<and>
            map_of kvs (ascii ''lat'') = Some lat \<and> map_of kvs (ascii ''lon'') = Some lon"
proof (cases data)
  case (JArr xs)
  show ?thesis
  proof (cases xs)
    case Nil
    with JArr assms show ?thesis by (simp add: coordinates_of_def)
  next
    case (Cons x rest)
    show ?thesis
    proof (cases x)
      case (JObj kvs)
      with JArr Cons assms show ?thesis
        by (auto simp: coordinates_of_def and_then_def split: option.splits)
    qed (use JArr Cons assms in \<open>simp_all add: coordinates_of_def and_then_def\<close>)
  qed
qed (use assms in \<open>simp_all add: coordinates_of_def and_then_def split: if_splits list.splits\<close>)

text \<open>
  Claim C8, as amended. \<^verbatim>\<open>get_coordinates\<close> returns a string for every place name and
  every outcome of the lookup, and raises nothing. When the lookup returns a JSON array
  whose first element is an object with members \<^verbatim>\<open>lat\<close> and \<^verbatim>\<open>lon\<close>, the result is the two
  members, whatever values they are, each formatted as \<^verbatim>\<open>str\<close> does, joined by a comma. In
  every other case (the request raises, the body is not JSON, the array is empty, the
  value has another form) the result is the fixed fallback coordinate string.
\<close>

theorem get_coordinates_result:
  "(\<forall>kvs rest lat lon.
      geocode e place = Body (JArr (JObj kvs # rest)) \<and>
      map_of kvs (ascii ''lat'') = Some lat \<and> map_of kvs (ascii ''lon'') = Some lon \<longrightarrow>
      get_coordinates e place = json_format e lat @ ascii '','' @ json_format e lon) \<and>
   ((\<nexists>kvs rest lat lon.
      geocode e place = Body (JArr (JObj kvs # rest)) \<and>
      map_of kvs (ascii ''lat'') = Some lat \<and> map_of kvs (ascii ''lon'') = Some lon) \<longrightarrow>
      get_coordinates e place = fallback_coordinates)"
proof (intro conjI allI impI)
  fix kvs rest lat lon
  assume "geocode e place = Body (JArr (JObj kvs # rest)) \<and>
      map_of kvs (ascii ''lat'') = Some lat \<and> map_of kvs (ascii ''lon'') = Some lon"
  then show "get_coordinates e place = json_format e lat @ ascii '','' @ json_format e lon"
    by (simp add: get_coordinates_def coordinates_of_def and_then_def)
next
  assume n: "\<nexists>kvs rest lat lon.
      geocode e place = Body (JArr (JObj kvs # rest)) \<and>
      map_of kvs (ascii ''lat'') = Some lat \<and> map_of kvs (ascii ''lon'') = Some lon"
  show "get_coordinates e place = fallback_coordinates"
  proof (cases "geocode e place")
    case RequestRaises
    then show ?thesis by (simp add: get_coordinates_def)
  next
    case BodyNotJson
    then show ?thesis by (simp add: get_coordinates_def)
  next
    case (Body data)
    show ?thesis
    proof (cases "coordinates_of e data")
      case (Inl err)
      with Body show ?thesis by (simp add: get_coordinates_def)
    next
      case (Inr res)
      show ?thesis
      proof (cases res)
        case None
        with Body Inr show ?thesis by (simp add: get_coordinates_def)
      next
        case (Some coords)
        with Inr have "coordinates_of e data = Inr (Some coords)" by simp
        then have "\<exists>kvs rest lat lon. data = JArr (JObj kvs # rest) \<and>
            map_of kvs (ascii ''lat'') = Some lat \<and> map_of kvs (ascii ''lon'') = Some lon"
          by (rule coordinates_of_Some)
        with n Body show ?thesis by blast
      qed
    qed
  qed
qed

text \<open>
  Runs of the amended C8: a lookup that answers with one result, one that cannot be reached, one
  whose body is not JSON, one with an empty result list and one that answers with an
  error object.
\<close>

theorem get_coordinates_result_witness:
  "get_coordinates
     (test_env\<lparr>geocode := \<lambda>_. Body (JArr [JObj [(ascii ''lat'', JStr (ascii ''37.56'')),
                                                (ascii ''lon'', JStr (ascii ''126.97''))]])\<rparr>)
     [0xC11C, 0xC6B8] = ascii ''37.56,126.97'' \<and>
   get_coordinates test_env [0xC11C, 0xC6B8] = fallback_coordinates \<and>
   get_coordinates (test_env\<lparr>geocode := \<lambda>_. BodyNotJson\<rparr>) [0xC11C, 0xC6B8]
     = fallback_coordinates \<and>
   get_coordinates (test_env\<lparr>geocode := \<lambda>_. Body (JArr [])\<rparr>) [0xC11C, 0xC6B8]
     = fallback_coordinates \<and>
   get_coordinates (test_env\<lparr>geocode := \<lambda>_. Body (JObj [(ascii ''error'', JStr [])])\<rparr>)
     [0xC11C, 0xC6B8] = fallback_coordinates"
proof -
  let ?ok = "test_env\<lparr>geocode := \<lambda>_. Body (JArr [JObj [(ascii ''lat'', JStr (ascii ''37.56'')),
                                                (ascii ''lon'', JStr (ascii ''126.97''))]])\<rparr>"
  have 1: "get_coordinates ?ok [0xC11C, 0xC6B8] = ascii ''37.56,126.97''"
    using get_coordinates_result [of ?ok "[0xC11C, 0xC6B8]"] by (simp add: ascii_def)
  have 2: "get_coordinates test_env [0xC11C, 0xC6B8] = fallback_coordinates"
    using get_coordinates_result [of test_env "[0xC11C, 0xC6B8]"] by (simp add: test_env_def)
  have 3: "get_coordinates (test_env\<lparr>geocode := \<lambda>_. BodyNotJson\<rparr>) [0xC11C, 0xC6B8]
     = fallback_coordinates"
    using get_coordinates_result [of "test_env\<lparr>geocode := \<lambda>_. BodyNotJson\<rparr>" "[0xC11C, 0xC6B8]"]
    by simp
  have 4: "get_coordinates (test_env\<lparr>geocode := \<lambda>_. Body (JArr [])\<rparr>) [0xC11C, 0xC6B8]
     = fallback_coordinates"
    using get_coordinates_result [of "test_env\<lparr>geocode := \<lambda>_. Body (JArr [])\<rparr>" "[0xC11C, 0xC6B8]"]
    by simp
  have 5: "get_coordinates (test_env\<lparr>geocode := \<lambda>_. Body (JObj [(ascii ''error'', JStr [])])\<rparr>)
     [0xC11C, 0xC6B8] = fallback_coordinates"
    using get_coordinates_result
      [of "test_env\<lparr>geocode := \<lambda>_. Body (JObj [(ascii ''error'', JStr [])])\<rparr>" "[0xC11C, 0xC6B8]"]
    by simp
  from 1 2 3 4 5 show ?thesis by blast
qed

text \<open>
  C8 as stated fails: a response whose first result has \<^verbatim>\<open>null\<close> for \<^verbatim>\<open>lat\<close> and \<^verbatim>\<open>lon\<close> is
  malformed, yet the result is \<^verbatim>\<open>None,None\<close> and not the fallback.
\<close>

theorem null_members_not_fallback:
  "geocode null_members_env [0xC11C, 0xC6B8] =
     Body (JArr [JObj [(ascii ''lat'', JNull), (ascii ''lon'', JNull)]]) \<and>
   get_coordinates null_members_env [0xC11C, 0xC6B8] = ascii ''None,None'' \<and>
   get_coordinates null_members_env [0xC11C, 0xC6B8] \<noteq> fallback_coordinates"
  by (simp add: null_members_env_def get_coordinates_def coordinates_of_def and_then_def
        fallback_coordinates_def ascii_def)

end
